theory Spec2Isabelle
  imports Complex_Main "HOL-Library.AList" "HOL-Library.Log_Nat"
begin

section \<open>Contract analyzer: a shallow embedding of the analysis pipeline\<close>

text \<open>
  The Python sources under \<^verbatim>\<open>app/\<close> are embedded function by function. A Python
  \<^verbatim>\<open>str\<close> is a \<^typ>\<open>string\<close>; a \<^typ>\<open>char\<close> stands for the code point with the same
  number, so the strings of the model are the Python strings over the code points
  0..255. An exception is a value of \<open>exn\<close>; a function that can raise returns
  \<open>exn + 'a\<close>.
\<close>

subsection \<open>Exceptions and character classes\<close>

datatype exn =
    ValueError string
  | AttributeError string
  | JSONDecodeError
  | LLMServiceError string
  | ComplianceError string
  | FileParsingError string
  | AnalysisError string
  | ValidationError string
  | StorageError string
  | PydanticValidationError
  | RecursionError string
  | RetryError exn

text \<open>
  \<^verbatim>\<open>str.isspace\<close>, \<^verbatim>\<open>str.split()\<close>, \<^verbatim>\<open>str.strip()\<close> and the class \<^verbatim>\<open>\s\<close> of \<^verbatim>\<open>re\<close>
  share one table of white space; below 256 it holds 9..13, 28..32, 133 and 160.
\<close>

definition isspace :: "char \<Rightarrow> bool" where
  "isspace c =
     (let n = (of_char c :: nat)
      in (9 \<le> n \<and> n \<le> 13) \<or> (28 \<le> n \<and> n \<le> 32) \<or> n = 133 \<or> n = 160)"

text \<open>
  \<^verbatim>\<open>str.isprintable\<close>: below 256 the control characters (0..31, 127..159), the
  no-break space 160 and the soft hyphen 173 are not printable; the space 32 is.
\<close>

definition isprintable :: "char \<Rightarrow> bool" where
  "isprintable c =
     (let n = (of_char c :: nat)
      in (32 \<le> n \<and> n \<le> 126) \<or> (161 \<le> n \<and> n \<noteq> 173))"

subsection \<open>String primitives of the Python runtime\<close>

text \<open>\<^verbatim>\<open>s.strip()\<close>: white space removed at both ends.\<close>

definition strip :: "string \<Rightarrow> string" where
  "strip s = rev (dropWhile isspace (rev (dropWhile isspace s)))"

text \<open>
  \<^verbatim>\<open>s.split()\<close>: the maximal runs of characters that are not white space, in order.
  \<open>split_from cur s\<close> carries the word read so far.
\<close>

fun split_from :: "string \<Rightarrow> string \<Rightarrow> string list" where
  "split_from cur [] = (if cur = [] then [] else [cur])"
| "split_from cur (c # cs) =
     (if isspace c then (if cur = [] then split_from [] cs else cur # split_from [] cs)
      else split_from (cur @ [c]) cs)"

definition split :: "string \<Rightarrow> string list" where
  "split s = split_from [] s"

text \<open>\<^verbatim>\<open>sep.join(xs)\<close>.\<close>

fun join :: "string \<Rightarrow> string list \<Rightarrow> string" where
  "join sep [] = []"
| "join sep [x] = x"
| "join sep (x # y # ys) = x @ sep @ join sep (y # ys)"

text \<open>
  \<^verbatim>\<open>range(start, stop, step)\<close> for a step that is not negative; Python raises on step 0
  before any element is produced, which the callers below check first.
\<close>

function py_range :: "nat \<Rightarrow> nat \<Rightarrow> nat \<Rightarrow> nat list" where
  "py_range i stop step =
     (if step = 0 \<or> stop \<le> i then [] else i # py_range (i + step) stop step)"
  by pat_completeness auto
termination
  by (relation "measure (\<lambda>(i, stop, step). stop - i)") auto

declare py_range.simps [simp del]

text \<open>\<^verbatim>\<open>s[i:j]\<close> for \<open>0 \<le> i \<le> j\<close>: the slice is clipped at the end of the string.\<close>

definition py_slice :: "'a list \<Rightarrow> nat \<Rightarrow> nat \<Rightarrow> 'a list" where
  "py_slice s i j = take (j - i) (drop i s)"

subsection \<open>\<^verbatim>\<open>app/utils/helpers.py\<close>\<close>

text \<open>
  \<^verbatim>\<open>
  def chunk_text(text: str, chunk_size: int = 1000) -> list[str]:
      return [text[i:i + chunk_size] for i in range(0, len(text), chunk_size)]
  \<close>
  \<^verbatim>\<open>range\<close> raises \<^verbatim>\<open>ValueError\<close> on a step of 0 and is empty for a negative step.
\<close>

definition chunk_text :: "string \<Rightarrow> int \<Rightarrow> exn + string list" where
  "chunk_text text chunk_size =
     (if chunk_size = 0 then Inl (ValueError ''range() arg 3 must not be zero'')
      else if chunk_size < 0 then Inr []
      else Inr (map (\<lambda>i. py_slice text i (i + nat chunk_size))
                  (py_range 0 (length text) (nat chunk_size))))"

subsection \<open>Text normalisation\<close>

text \<open>
  \<^verbatim>\<open>app/core/compliance.py\<close>:
  \<^verbatim>\<open>
  def _clean_text(self, text: str) -> str:
      if not text or not isinstance(text, str):
          return ""
      return ' '.join(text.split()).strip()
  \<close>
  on a \<^verbatim>\<open>str\<close> argument.
\<close>

definition clean_text :: "string \<Rightarrow> string" where
  "clean_text text = (if text = [] then [] else strip (join '' '' (split text)))"

text \<open>
  \<^verbatim>\<open>re.sub(r'\s+', ' ', text)\<close>: every maximal run of white space becomes one space.
  The flag says whether the previous character belonged to a run.
\<close>

fun sub_spaces :: "bool \<Rightarrow> string \<Rightarrow> string" where
  "sub_spaces in_run [] = []"
| "sub_spaces in_run (c # cs) =
     (if isspace c then (if in_run then sub_spaces True cs else CHR '' '' # sub_spaces True cs)
      else c # sub_spaces False cs)"

text \<open>
  \<^verbatim>\<open>app/core/parser.py\<close>:
  \<^verbatim>\<open>
  def _clean_text(text: str) -> str:
      text = re.sub(r'\s+', ' ', text)
      text = text.replace('\u0000', '')
      text = text.replace('"', '"').replace('"', '"')
      text = ''.join(char for char in text if ord(char) >= 32)
      return text.strip()
  \<close>
  Both \<^verbatim>\<open>replace\<close> calls of the third line put a straight double quote where there
  is a straight double quote, so the line leaves the text as it is.
\<close>

definition parser_clean_text :: "string \<Rightarrow> string" where
  "parser_clean_text text =
     (let t1 = sub_spaces False text;
          t2 = filter (\<lambda>c. c \<noteq> CHR 0x00) t1;
          t3 = t2;
          t4 = filter (\<lambda>c. (of_char c :: nat) \<ge> 32) t3
      in strip t4)"

text \<open>The words \<^verbatim>\<open>split\<close> returns: none is empty and none holds white space.\<close>

definition tokens_ok :: "string list \<Rightarrow> bool" where
  "tokens_ok ws = (\<forall>w \<in> set ws. w \<noteq> [] \<and> (\<forall>c \<in> set w. \<not> isspace c))"

subsection \<open>JSON values and decoders\<close>

text \<open>
  The value \<^verbatim>\<open>json.loads\<close> returns: \<^verbatim>\<open>None\<close>, a \<^verbatim>\<open>bool\<close>, a number (kept as the
  literal that was read), a \<^verbatim>\<open>str\<close>, a \<^verbatim>\<open>list\<close> or a \<^verbatim>\<open>dict\<close>. A \<^verbatim>\<open>dict\<close> is the list of its
  pairs in insertion order, each key once: \<^verbatim>\<open>d[k] = v\<close> is \<^const>\<open>AList.update\<close>, which
  replaces the value of a key that is present and appends a new key at the end.

  \<^verbatim>\<open>json.loads\<close> belongs to the standard library, not to the program: the functions
  of the program take the decoder as a parameter, a function that returns the
  decoded value or the exception it raises (\<^verbatim>\<open>JSONDecodeError\<close> for a text that is
  not JSON, \<^verbatim>\<open>ValueError\<close> for an integer literal beyond the digit limit,
  \<^verbatim>\<open>RecursionError\<close> for nesting beyond the stack). The rest of this section is a
  decoder for the JSON grammar, used for the concrete environment of the examples.
\<close>

datatype json =
    JNull
  | JBool bool
  | JNum string
  | JStr string
  | JArr "json list"
  | JObj "(string \<times> json) list"

type_synonym decoder = "string \<Rightarrow> exn + json"

text \<open>The decoder skips the four white-space characters of JSON between tokens.\<close>

definition json_ws :: "char \<Rightarrow> bool" where
  "json_ws c = (c = CHR '' '' \<or> c = CHR 0x09 \<or> c = CHR 0x0A \<or> c = CHR 0x0D)"

definition skip_ws :: "string \<Rightarrow> string" where
  "skip_ws s = dropWhile json_ws s"

definition isdigit :: "char \<Rightarrow> bool" where
  "isdigit c = (let n = (of_char c :: nat) in 48 \<le> n \<and> n \<le> 57)"

definition hexval :: "char \<Rightarrow> nat option" where
  "hexval c =
     (let n = (of_char c :: nat)
      in if 48 \<le> n \<and> n \<le> 57 then Some (n - 48)
         else if 65 \<le> n \<and> n \<le> 70 then Some (n - 55)
         else if 97 \<le> n \<and> n \<le> 102 then Some (n - 87)
         else None)"

text \<open>The character after a backslash in a JSON string.\<close>

definition unescape :: "char \<Rightarrow> char option" where
  "unescape e =
     (if e = CHR 0x22 then Some (CHR 0x22)
      else if e = CHR 0x5C then Some (CHR 0x5C)
      else if e = CHR ''/'' then Some (CHR ''/'')
      else if e = CHR ''b'' then Some (CHR 0x08)
      else if e = CHR ''f'' then Some (CHR 0x0C)
      else if e = CHR ''n'' then Some (CHR 0x0A)
      else if e = CHR ''r'' then Some (CHR 0x0D)
      else if e = CHR ''t'' then Some (CHR 0x09)
      else None)"

text \<open>
  The body of a JSON string, read after its opening quote up to the closing one
  (strict mode: a raw control character is an error). \<open>Hex k v\<close> is the state
  inside a \<^verbatim>\<open>\uXXXX\<close> escape with \<open>k\<close> digits still to read. An escape that names a
  code point above 255 leaves the strings of this model: such a text is outside the
  domain of this decoder (it gives \<open>None\<close> there), and no example uses one.
\<close>

datatype scan_mode = Plain | Escape | Hex nat nat

fun scan_chars :: "scan_mode \<Rightarrow> string \<Rightarrow> string \<Rightarrow> (string \<times> string) option" where
  "scan_chars m acc [] = None"
| "scan_chars Plain acc (c # cs) =
     (if c = CHR 0x22 then Some (acc, cs)
      else if c = CHR 0x5C then scan_chars Escape acc cs
      else if (of_char c :: nat) < 32 then None
      else scan_chars Plain (acc @ [c]) cs)"
| "scan_chars Escape acc (c # cs) =
     (if c = CHR ''u'' then scan_chars (Hex 4 0) acc cs
      else (case unescape c of
              None \<Rightarrow> None
            | Some ch \<Rightarrow> scan_chars Plain (acc @ [ch]) cs))"
| "scan_chars (Hex k v) acc (c # cs) =
     (case hexval c of
        None \<Rightarrow> None
      | Some h \<Rightarrow>
          if k \<le> 1 then
            (if 16 * v + h < 256 then scan_chars Plain (acc @ [char_of (16 * v + h)]) cs
             else None)
          else scan_chars (Hex (k - 1) (16 * v + h)) acc cs)"

definition scanstring :: "string \<Rightarrow> (string \<times> string) option" where
  "scanstring s = scan_chars Plain [] s"

text \<open>\<^verbatim>\<open>s.startswith(p)\<close> and \<^verbatim>\<open>p in s\<close>.\<close>

definition startswith :: "string \<Rightarrow> string \<Rightarrow> bool" where
  "startswith s p = (take (length p) s = p)"

fun contains :: "string \<Rightarrow> string \<Rightarrow> bool" where
  "contains [] p = (p = [])"
| "contains (c # cs) p = (startswith (c # cs) p \<or> contains cs p)"

definition scan_digits :: "string \<Rightarrow> string \<times> string" where
  "scan_digits s = (takeWhile isdigit s, dropWhile isdigit s)"

text \<open>
  A number at the head of the text, as the decoder's pattern
  \<^verbatim>\<open>(-?(?:0|[1-9][0-9]*))(\.[0-9]+)?([eE][-+]?[0-9]+)?\<close> matches it: the literal and the
  rest of the text.
\<close>

definition scan_int :: "string \<Rightarrow> (string \<times> string) option" where
  "scan_int s =
     (let sign = (if startswith s ''-'' then ''-'' else []);
          s1 = drop (length sign) s;
          ds = fst (scan_digits s1)
      in if ds = [] then None
         else if hd ds = CHR ''0'' then Some (sign @ ''0'', tl s1)
         else Some (sign @ ds, snd (scan_digits s1)))"

definition scan_frac :: "string \<Rightarrow> string \<times> string" where
  "scan_frac s =
     (case s of
        [] \<Rightarrow> ([], s)
      | c # r \<Rightarrow>
          if c = CHR ''.'' \<and> fst (scan_digits r) \<noteq> []
          then (c # fst (scan_digits r), snd (scan_digits r))
          else ([], s))"

definition scan_exp :: "string \<Rightarrow> string \<times> string" where
  "scan_exp s =
     (case s of
        [] \<Rightarrow> ([], s)
      | c # r \<Rightarrow>
          if c = CHR ''e'' \<or> c = CHR ''E'' then
            (let sg = (if startswith r ''+'' then ''+'' else if startswith r ''-'' then ''-'' else []);
                 r' = drop (length sg) r
             in if fst (scan_digits r') \<noteq> []
                then (c # sg @ fst (scan_digits r'), snd (scan_digits r'))
                else ([], s))
          else ([], s))"

definition scan_number :: "string \<Rightarrow> (string \<times> string) option" where
  "scan_number s =
     (case scan_int s of
        None \<Rightarrow> None
      | Some (ipart, s1) \<Rightarrow>
          (let (frac, s2) = scan_frac s1;
               (ex, s3) = scan_exp s2
           in Some (ipart @ frac @ ex, s3)))"

text \<open>
  The values that are neither a string, an object nor an array. An integer literal
  (no fraction, no exponent) of more than 4300 digits makes \<^verbatim>\<open>int\<close> raise
  \<^verbatim>\<open>ValueError\<close>, the limit of \<^verbatim>\<open>sys.set_int_max_str_digits\<close> that the interpreter
  starts with (the message, which no caller reads, is kept up to the limit).
\<close>

definition is_float_literal :: "string \<Rightarrow> bool" where
  "is_float_literal lit = list_ex (\<lambda>c. c = CHR ''.'' \<or> c = CHR ''e'' \<or> c = CHR ''E'') lit"

definition scan_literal :: "string \<Rightarrow> exn + (json \<times> string)" where
  "scan_literal s =
     (if startswith s ''null'' then Inr (JNull, drop 4 s)
      else if startswith s ''true'' then Inr (JBool True, drop 4 s)
      else if startswith s ''false'' then Inr (JBool False, drop 5 s)
      else (case scan_number s of
              Some (lit, r) \<Rightarrow>
                if \<not> is_float_literal lit \<and> 4300 < length (filter isdigit lit)
                then Inl (ValueError ''Exceeds the limit (4300 digits) for integer string conversion'')
                else Inr (JNum lit, r)
            | None \<Rightarrow>
                if startswith s ''NaN'' then Inr (JNum ''NaN'', drop 3 s)
                else if startswith s ''Infinity'' then Inr (JNum ''Infinity'', drop 8 s)
                else if startswith s ''-Infinity'' then Inr (JNum ''-Infinity'', drop 9 s)
                else Inl JSONDecodeError))"

text \<open>
  \<open>scan_once\<close> reads one value at the head of the text; \<open>parse_array\<close> and
  \<open>parse_object\<close> are the loops over the elements and the members, entered after
  the opening bracket when the container is not empty. The first error ends the
  scan. The first argument bounds the number of nested calls of the model;
  \<open>ref_loads\<close> starts it above the length of the text, and every call consumes a
  character. The second argument is the number of containers that may still be
  entered before the interpreter raises \<^verbatim>\<open>RecursionError\<close>.
\<close>

fun scan_once :: "nat \<Rightarrow> nat \<Rightarrow> string \<Rightarrow> exn + (json \<times> string)"
and parse_array :: "nat \<Rightarrow> nat \<Rightarrow> json list \<Rightarrow> string \<Rightarrow> exn + (json \<times> string)"
and parse_object :: "nat \<Rightarrow> nat \<Rightarrow> (string \<times> json) list \<Rightarrow> string \<Rightarrow> exn + (json \<times> string)"
where
  "scan_once 0 depth s = Inl JSONDecodeError"
| "scan_once (Suc n) depth [] = Inl JSONDecodeError"
| "scan_once (Suc n) depth (c # cs) =
     (if c = CHR 0x22 then
        (case scanstring cs of None \<Rightarrow> Inl JSONDecodeError | Some (str, r) \<Rightarrow> Inr (JStr str, r))
      else if c = CHR ''{'' then
        (if depth = 0 then
           Inl (RecursionError
                  ''maximum recursion depth exceeded while decoding a JSON object from a unicode string'')
         else if startswith (skip_ws cs) ''}'' then Inr (JObj [], tl (skip_ws cs))
         else parse_object n (depth - 1) [] (skip_ws cs))
      else if c = CHR ''['' then
        (if depth = 0 then
           Inl (RecursionError
                  ''maximum recursion depth exceeded while decoding a JSON array from a unicode string'')
         else if startswith (skip_ws cs) '']'' then Inr (JArr [], tl (skip_ws cs))
         else parse_array n (depth - 1) [] (skip_ws cs))
      else scan_literal (c # cs))"
| "parse_array 0 depth acc s = Inl JSONDecodeError"
| "parse_array (Suc n) depth acc s =
     (case scan_once n depth s of
        Inl e \<Rightarrow> Inl e
      | Inr (v, r) \<Rightarrow>
          (case skip_ws r of
             [] \<Rightarrow> Inl JSONDecodeError
           | d # r' \<Rightarrow>
               if d = CHR '']'' then Inr (JArr (acc @ [v]), r')
               else if d = CHR '','' then parse_array n depth (acc @ [v]) (skip_ws r')
               else Inl JSONDecodeError))"
| "parse_object 0 depth acc s = Inl JSONDecodeError"
| "parse_object (Suc n) depth acc s =
     (if \<not> startswith s [CHR 0x22] then Inl JSONDecodeError
      else
        (case scanstring (tl s) of
           None \<Rightarrow> Inl JSONDecodeError
         | Some (key, s2) \<Rightarrow>
             if \<not> startswith (skip_ws s2) '':'' then Inl JSONDecodeError
             else
               (case scan_once n depth (skip_ws (tl (skip_ws s2))) of
                  Inl e \<Rightarrow> Inl e
                | Inr (v, s4) \<Rightarrow>
                    (case skip_ws s4 of
                       [] \<Rightarrow> Inl JSONDecodeError
                     | d # s5 \<Rightarrow>
                         if d = CHR ''}'' then Inr (JObj (AList.update key v acc), s5)
                         else if d = CHR '','' then parse_object n depth (AList.update key v acc) (skip_ws s5)
                         else Inl JSONDecodeError))))"

text \<open>
  One value between optional white space, and nothing after it: the decoder of the
  examples, for a text whose escapes stay below 256 and an interpreter that allows
  \<open>depth\<close> nested containers at the call.
\<close>

definition ref_loads :: "nat \<Rightarrow> decoder" where
  "ref_loads depth s =
     (case scan_once (Suc (length s)) depth (skip_ws s) of
        Inl e \<Rightarrow> Inl e
      | Inr (v, r) \<Rightarrow> if skip_ws r = [] then Inr v else Inl JSONDecodeError)"

subsection \<open>Searching a completion for JSON (\<^verbatim>\<open>app/core/compliance.py\<close>)\<close>

text \<open>
  \<^verbatim>\<open>re.search(r'\{[\s\S]*\}', s)\<close> and \<^verbatim>\<open>re.search(r'\[[\s\S]*\]', s)\<close>: the match
  starts at the first opening bracket and, the star being greedy, ends at the last
  closing bracket after it; there is no match when no closing bracket follows the
  first opening one. \<open>upto_last c s\<close> is the longest prefix of \<open>s\<close> that ends with
  \<open>c\<close>.
\<close>

definition upto_last :: "char \<Rightarrow> string \<Rightarrow> string option" where
  "upto_last c s =
     (let t = dropWhile (\<lambda>x. x \<noteq> c) (rev s) in if t = [] then None else Some (rev t))"

definition search_span :: "char \<Rightarrow> char \<Rightarrow> string \<Rightarrow> string option" where
  "search_span l r s =
     (case dropWhile (\<lambda>x. x \<noteq> l) s of
        [] \<Rightarrow> None
      | c # cs \<Rightarrow> (case upto_last r cs of None \<Rightarrow> None | Some m \<Rightarrow> Some (c # m)))"

text \<open>
  \<^verbatim>\<open>re.findall(r'\{[^{}]*\}', s)\<close>: the objects without a brace inside, from left to
  right. After an opening brace the scan runs over the characters that are no
  braces: a closing brace ends a match, another opening brace starts the attempt
  again from there, and the end of the text ends the search.
\<close>

definition is_brace :: "char \<Rightarrow> bool" where
  "is_brace c = (c = CHR ''{'' \<or> c = CHR ''}'')"

function findall_flat :: "string \<Rightarrow> string list" where
  "findall_flat [] = []"
| "findall_flat (c # cs) =
     (if c = CHR ''{'' then
        (case dropWhile (\<lambda>x. \<not> is_brace x) cs of
           [] \<Rightarrow> []
         | d # ds \<Rightarrow>
             if d = CHR ''}''
             then (c # takeWhile (\<lambda>x. \<not> is_brace x) cs @ [d]) # findall_flat ds
             else findall_flat (d # ds))
      else findall_flat cs)"
  by pat_completeness auto
termination
proof (relation "measure length")
  show "wf (measure length)" by simp
next
  fix c :: char and cs d ds
  assume "dropWhile (\<lambda>x. \<not> is_brace x) cs = d # ds"
  then have "length (d # ds) \<le> length cs"
    by (metis length_dropWhile_le)
  then show "(ds, c # cs) \<in> measure length" by simp
next
  fix c :: char and cs d ds
  assume "dropWhile (\<lambda>x. \<not> is_brace x) cs = d # ds"
  then have "length (d # ds) \<le> length cs"
    by (metis length_dropWhile_le)
  then show "(d # ds, c # cs) \<in> measure length" by simp
next
  fix c :: char and cs
  show "(cs, c # cs) \<in> measure length" by simp
qed

text \<open>
  \<^verbatim>\<open>re.sub(fence + r'\s*', '', s)\<close> for a literal \<open>fence\<close> that is not empty: every
  occurrence of the fence, with the white space after it, is deleted; the scan goes
  on behind the deleted part.
\<close>

function sub_fence :: "string \<Rightarrow> string \<Rightarrow> string" where
  "sub_fence fence [] = []"
| "sub_fence fence (c # cs) =
     (if fence \<noteq> [] \<and> startswith (c # cs) fence
      then sub_fence fence (dropWhile isspace (drop (length fence) (c # cs)))
      else c # sub_fence fence cs)"
  by pat_completeness auto
termination
proof (relation "measure (\<lambda>(fence, s). length s)")
  show "wf (measure (\<lambda>(fence, s). length s))" by simp
next
  fix fence :: string and c cs
  assume "fence \<noteq> [] \<and> startswith (c # cs) fence"
  then have "length (drop (length fence) (c # cs)) < length (c # cs)"
    by (cases fence) auto
  moreover have "length (dropWhile isspace (drop (length fence) (c # cs)))
                   \<le> length (drop (length fence) (c # cs))"
    by (rule length_dropWhile_le)
  ultimately show "((fence, dropWhile isspace (drop (length fence) (c # cs))), fence, c # cs)
                     \<in> measure (\<lambda>(fence, s). length s)"
    by simp
next
  fix fence :: string and c cs
  show "((fence, cs), fence, c # cs) \<in> measure (\<lambda>(fence, s). length s)" by simp
qed

text \<open>
  \<^verbatim>\<open>
  def _clean_response(self, response: str) -> str:
      if not response:
          return ""
      response = ''.join(char for char in response if char.isprintable() or char in ['\n', ' '])
      response = response.replace('"', '"').replace('"', '"')
      response = re.sub(r'```json\s*', '', response)
      response = re.sub(r'```\s*', '', response)
      response = response.strip()
      return response
  \<close>
  The two \<^verbatim>\<open>replace\<close> calls put a straight quote for a straight quote.
\<close>

definition clean_response :: "string \<Rightarrow> string" where
  "clean_response response =
     (if response = [] then []
      else
        let r1 = filter (\<lambda>c. isprintable c \<or> c = CHR 0x0A \<or> c = CHR '' '') response;
            r2 = r1;
            r3 = sub_fence ''```json'' r2;
            r4 = sub_fence ''```'' r3
        in strip r4)"

text \<open>
  \<^verbatim>\<open>
  def _extract_json_from_response(self, response: str) -> Optional[str]:
      if not response or not isinstance(response, str):
          return None
      try:
          response = self._clean_response(response)
          json_match = re.search(r'\{[\s\S]*\}', response)
          if json_match:
              try:
                  potential_json = json_match.group(0)
                  json.loads(potential_json)
                  return potential_json
              except json.JSONDecodeError:
                  pass
          array_match = re.search(r'\[[\s\S]*\]', response)
          if array_match:
              try:
                  potential_json = array_match.group(0)
                  json.loads(potential_json)
                  return potential_json
              except json.JSONDecodeError:
                  pass
          objects = re.findall(r'\{[^{}]*\}', response)
          if objects:
              for obj in objects:
                  try:
                      json.loads(obj)
                      return obj
                  except json.JSONDecodeError:
                      continue
          return None
      except Exception as e:
          return None
  \<close>
  An attempt parses its candidate with the decoder \<open>loads\<close>: the candidate is
  returned when the decoder returns, the attempt fails when the decoder raises
  \<^verbatim>\<open>JSONDecodeError\<close> (the inner handler), and any other exception leaves the three
  attempts for the outer handler. \<open>method1\<close>, \<open>method2\<close> and \<open>method3\<close> are the
  three attempts, \<open>method3_loop\<close> the loop of the third.
\<close>

datatype attempt = Returned string | Failed | Raised exn

definition try_json :: "decoder \<Rightarrow> string \<Rightarrow> attempt" where
  "try_json loads potential_json =
     (case loads potential_json of
        Inr v \<Rightarrow> Returned potential_json
      | Inl e \<Rightarrow> if e = JSONDecodeError then Failed else Raised e)"

definition method1 :: "decoder \<Rightarrow> string \<Rightarrow> attempt" where
  "method1 loads r =
     (case search_span (CHR ''{'') (CHR ''}'') r of None \<Rightarrow> Failed | Some m \<Rightarrow> try_json loads m)"

definition method2 :: "decoder \<Rightarrow> string \<Rightarrow> attempt" where
  "method2 loads r =
     (case search_span (CHR ''['') (CHR '']'') r of None \<Rightarrow> Failed | Some m \<Rightarrow> try_json loads m)"

fun method3_loop :: "decoder \<Rightarrow> string list \<Rightarrow> attempt" where
  "method3_loop loads [] = Failed"
| "method3_loop loads (obj # objs) =
     (case try_json loads obj of
        Failed \<Rightarrow> method3_loop loads objs
      | Returned j \<Rightarrow> Returned j
      | Raised e \<Rightarrow> Raised e)"

definition method3 :: "decoder \<Rightarrow> string \<Rightarrow> attempt" where
  "method3 loads r = method3_loop loads (findall_flat r)"

definition extract_json_from_response :: "decoder \<Rightarrow> string \<Rightarrow> string option" where
  "extract_json_from_response loads response =
     (if response = [] then None
      else
        let r = clean_response response
        in case method1 loads r of
             Returned j \<Rightarrow> Some j
           | Raised e \<Rightarrow> None
           | Failed \<Rightarrow>
               (case method2 loads r of
                  Returned j \<Rightarrow> Some j
                | Raised e \<Rightarrow> None
                | Failed \<Rightarrow>
                    (case method3 loads r of
                       Returned j \<Rightarrow> Some j
                     | Raised e \<Rightarrow> None
                     | Failed \<Rightarrow> None)))"

text \<open>
  \<^verbatim>\<open>
  def _clean_json_response(self, response: str) -> Optional[str]:
      if not response or not isinstance(response, str):
          return None
      try:
          response = ''.join(char for char in response if char.isprintable() or char in ['\n', '\r', '\t'])
          json_match = re.search(r'\{[\s\S]*\}', response)
          if json_match and '"clauses"' in json_match.group(0):
              return json_match.group(0)
          array_match = re.search(r'\[([\s\S]*)\]', response)
          if array_match:
              return f'{{"clauses": {array_match.group(0)}}}'
          return None
      except Exception as e:
          return None
  \<close>
\<close>

definition clauses_key :: string where
  "clauses_key = [CHR 0x22] @ ''clauses'' @ [CHR 0x22]"

definition clean_json_response :: "string \<Rightarrow> string option" where
  "clean_json_response response =
     (if response = [] then None
      else
        let r = filter (\<lambda>c. isprintable c \<or> c = CHR 0x0A \<or> c = CHR 0x0D \<or> c = CHR 0x09) response;
            json_match = search_span (CHR ''{'') (CHR ''}'') r
        in if json_match \<noteq> None \<and> contains (the json_match) clauses_key
           then json_match
           else
             (case search_span (CHR ''['') (CHR '']'') r of
                Some m \<Rightarrow> Some (''{'' @ clauses_key @ '': '' @ m @ ''}'')
              | None \<Rightarrow> None))"

text \<open>
  The extraction as a specification words it, to be compared with the two functions
  above. \<open>candidates\<close> are the texts that the strategies propose for a cleaned
  completion, in order: the span from the first opening brace to the last closing
  brace, the span from the first opening bracket to the last closing bracket, and
  the objects without inner braces from left to right. \<open>first_accepted\<close> is the
  first candidate that the decoder accepts; it gives up at a candidate on which the
  decoder raises anything but \<^verbatim>\<open>JSONDecodeError\<close>. \<open>printable_text\<close> is a completion
  without the characters that are neither printable nor a line feed, a carriage
  return or a tabulator.
\<close>

definition candidates :: "string \<Rightarrow> string list" where
  "candidates r =
     (case search_span (CHR ''{'') (CHR ''}'') r of None \<Rightarrow> [] | Some m \<Rightarrow> [m])
     @ (case search_span (CHR ''['') (CHR '']'') r of None \<Rightarrow> [] | Some m \<Rightarrow> [m])
     @ findall_flat r"

fun first_accepted :: "decoder \<Rightarrow> string list \<Rightarrow> string option" where
  "first_accepted loads [] = None"
| "first_accepted loads (c # cs) =
     (case loads c of
        Inr v \<Rightarrow> Some c
      | Inl e \<Rightarrow> if e = JSONDecodeError then first_accepted loads cs else None)"

definition printable_text :: "string \<Rightarrow> string" where
  "printable_text response =
     filter (\<lambda>c. isprintable c \<or> c = CHR 0x0A \<or> c = CHR 0x0D \<or> c = CHR 0x09) response"

subsection \<open>Python values: truth, dictionaries, \<^verbatim>\<open>str\<close> methods\<close>

text \<open>
  \<^verbatim>\<open>bool(x)\<close> for a decoded value. A number is false when it is zero. An integer
  literal is zero when it has no digit but \<^verbatim>\<open>0\<close>. A literal with a fraction or an
  exponent is read as a double, rounded to nearest: it is zero when its mantissa is,
  or when its magnitude is at most \<open>2 ^ -1075\<close>, half of the least positive double.
  For a mantissa of digits \<open>N\<close> with \<open>k\<close> of them behind the point and an exponent
  \<open>x\<close> the magnitude is \<open>N * 10 ^ (x - k)\<close>. \<^verbatim>\<open>NaN\<close> and the infinities are true.
\<close>

definition digits_value :: "string \<Rightarrow> int" where
  "digits_value ds = fold (\<lambda>c n. 10 * n + (of_char c - 48)) ds 0"

definition float_nonzero :: "string \<Rightarrow> bool" where
  "float_nonzero lit =
     (let body = (if startswith lit ''-'' then tl lit else lit);
          mant = takeWhile (\<lambda>c. c \<noteq> CHR ''e'' \<and> c \<noteq> CHR ''E'') body;
          ex = drop (Suc (length mant)) body;
          ipart = takeWhile isdigit mant;
          frac = drop (Suc (length ipart)) mant;
          N = digits_value (ipart @ frac);
          x = (if startswith ex ''-'' then - digits_value (tl ex)
               else if startswith ex ''+'' then digits_value (tl ex)
               else digits_value ex);
          e = x - int (length frac)
      in N \<noteq> 0 \<and> (0 \<le> e \<or> 10 ^ nat (- e) < N * 2 ^ 1075))"

definition num_nonzero :: "string \<Rightarrow> bool" where
  "num_nonzero lit =
     (lit = ''NaN'' \<or> lit = ''Infinity'' \<or> lit = ''-Infinity''
      \<or> (if is_float_literal lit then float_nonzero lit
          else list_ex (\<lambda>c. isdigit c \<and> c \<noteq> CHR ''0'') lit))"

fun truthy :: "json \<Rightarrow> bool" where
  "truthy JNull = False"
| "truthy (JBool b) = b"
| "truthy (JNum lit) = num_nonzero lit"
| "truthy (JStr s) = (s \<noteq> [])"
| "truthy (JArr xs) = (xs \<noteq> [])"
| "truthy (JObj kvs) = (kvs \<noteq> [])"

text \<open>\<^verbatim>\<open>d.get(k, default)\<close> on a dictionary.\<close>

type_synonym pydict = "(string \<times> json) list"

definition dict_get :: "pydict \<Rightarrow> string \<Rightarrow> json \<Rightarrow> json" where
  "dict_get d k dflt = (case map_of d k of Some v \<Rightarrow> v | None \<Rightarrow> dflt)"

text \<open>\<^verbatim>\<open>x.get(k, default)\<close> on a decoded value: only a \<^verbatim>\<open>dict\<close> has the method.\<close>

definition json_get :: "json \<Rightarrow> string \<Rightarrow> json \<Rightarrow> exn + json" where
  "json_get x k dflt =
     (case x of
        JObj d \<Rightarrow> Inr (dict_get d k dflt)
      | _ \<Rightarrow> Inl (AttributeError ''object has no attribute 'get' ''))"

text \<open>\<^verbatim>\<open>s.lower()\<close> below 256: A..Z and the capital letters 192..222 other than 215.\<close>

definition lower_char :: "char \<Rightarrow> char" where
  "lower_char c =
     (let n = (of_char c :: nat)
      in if (65 \<le> n \<and> n \<le> 90) \<or> (192 \<le> n \<and> n \<le> 222 \<and> n \<noteq> 215)
         then char_of (n + 32) else c)"

definition lower :: "string \<Rightarrow> string" where
  "lower s = map lower_char s"

text \<open>\<^verbatim>\<open>s.endswith(p)\<close>.\<close>

definition endswith :: "string \<Rightarrow> string \<Rightarrow> bool" where
  "endswith s p = startswith (rev s) (rev p)"

subsection \<open>The model service (\<^verbatim>\<open>app/services/llm.py\<close>)\<close>

text \<open>
  What lies outside the program is a parameter. \<open>agenerate E n prompt\<close> is the
  outcome of call number \<open>n\<close> of the chat model with that prompt: it raises, it
  answers without generations, or it answers with a text. \<open>uuid4 E n\<close> is the
  \<open>n\<close>-th identifier that \<^verbatim>\<open>uuid.uuid4()\<close> draws, \<open>py_hash E\<close> is the built-in \<^verbatim>\<open>hash\<close>
  of this process, \<open>parse_file E\<close> is \<^verbatim>\<open>ContractParser.parse\<close> on the files of the
  disk, \<open>save_temp_file E\<close> is \<^verbatim>\<open>StorageService.save_temp_file\<close> and \<open>json_loads E\<close> is
  \<^verbatim>\<open>json.loads\<close> of the standard library.
\<close>

datatype backend_result = Raises exn | NoGenerations | Text string

record upload =
  filename :: "string option"
  content :: string

record env =
  agenerate :: "nat \<Rightarrow> string \<Rightarrow> backend_result"
  uuid4 :: "nat \<Rightarrow> string"
  py_hash :: "string \<Rightarrow> int"
  parse_file :: "string \<Rightarrow> exn + string"
  save_temp_file :: "upload \<Rightarrow> exn + string"
  json_loads :: decoder

text \<open>
  The state of the process that the pipeline changes: how often the chat model
  was called, how often the body of \<^verbatim>\<open>generate\<close> was run, the seconds the retry
  decorator slept, and how many identifiers were drawn.
\<close>

record world =
  backend_calls :: nat
  attempts :: nat
  sleeps :: "nat list"
  uuids :: nat

text \<open>\<^verbatim>\<open>str(e)\<close>: the message of an exception (shortened for those of the libraries).\<close>

fun exn_str :: "exn \<Rightarrow> string" where
  "exn_str (ValueError m) = m"
| "exn_str (AttributeError m) = m"
| "exn_str JSONDecodeError = ''Expecting value''"
| "exn_str (LLMServiceError m) = m"
| "exn_str (ComplianceError m) = m"
| "exn_str (FileParsingError m) = m"
| "exn_str (AnalysisError m) = m"
| "exn_str (ValidationError m) = m"
| "exn_str (StorageError m) = m"
| "exn_str PydanticValidationError = ''validation error for ComplianceResult''"
| "exn_str (RecursionError m) = m"
| "exn_str (RetryError e) = ''RetryError''"

text \<open>
  The body of \<^verbatim>\<open>generate\<close>, one attempt:
  \<^verbatim>\<open>
  async def generate(self, prompt: str) -> str:
      if not prompt:
          raise LLMServiceError("Empty prompt provided")
      try:
          messages = [...]
          response = await self.llm.agenerate(messages=[messages])
          if not response or not response.generations:
              raise LLMServiceError("Empty response from LLM")
          generated_text = response.generations[0][0].text.strip()
          if not generated_text:
              raise LLMServiceError("Empty text in LLM response")
          return generated_text
      except Exception as e:
          raise LLMServiceError(f"LLM generation failed: {str(e)}")
  \<close>
  The check of the prompt stands before the \<^verbatim>\<open>try\<close>; the two errors raised inside
  it are caught by its handler and wrapped like an error of the chat model.
\<close>

definition generate_body :: "env \<Rightarrow> string \<Rightarrow> world \<Rightarrow> (exn + string) \<times> world" where
  "generate_body E prompt w =
     (let w0 = w\<lparr>attempts := attempts w + 1\<rparr>
      in if prompt = [] then (Inl (LLMServiceError ''Empty prompt provided''), w0)
         else
           let w1 = w0\<lparr>backend_calls := backend_calls w0 + 1\<rparr>;
               failed = (\<lambda>m. Inl (LLMServiceError (''LLM generation failed: '' @ m)))
           in case agenerate E (backend_calls w) prompt of
                Raises e \<Rightarrow> (failed (exn_str e), w1)
              | NoGenerations \<Rightarrow> (failed ''Empty response from LLM'', w1)
              | Text t \<Rightarrow>
                  if strip t = [] then (failed ''Empty text in LLM response'', w1)
                  else (Inr (strip t), w1))"

text \<open>
  The decorator
  \<^verbatim>\<open>@retry(stop=stop_after_attempt(3), wait=wait_exponential(multiplier=1, min=4, max=10))\<close>
  of the \<^verbatim>\<open>tenacity\<close> library. Its defaults retry on every exception and, when the
  stop condition holds after a failed attempt, raise \<^verbatim>\<open>RetryError\<close> around the last
  failure. After failed attempt number \<open>k\<close> it sleeps
  \<^verbatim>\<open>max(min, min(multiplier * 2 ** (k - 1), max))\<close> seconds.
\<close>

definition stop_after_attempt :: nat where
  "stop_after_attempt = 3"

definition wait_exponential :: "nat \<Rightarrow> nat" where
  "wait_exponential attempt_number = max 4 (min (1 * 2 ^ (attempt_number - 1)) 10)"

function retry :: "(world \<Rightarrow> (exn + 'a) \<times> world) \<Rightarrow> nat \<Rightarrow> world \<Rightarrow> (exn + 'a) \<times> world" where
  "retry f attempt_number w =
     (case f w of
        (Inr x, w1) \<Rightarrow> (Inr x, w1)
      | (Inl e, w1) \<Rightarrow>
          if attempt_number \<ge> stop_after_attempt then (Inl (RetryError e), w1)
          else retry f (attempt_number + 1)
                 (w1\<lparr>sleeps := sleeps w1 @ [wait_exponential attempt_number]\<rparr>))"
  by pat_completeness auto
termination
  by (relation "measure (\<lambda>(f, attempt_number, w). stop_after_attempt - attempt_number)") auto

declare retry.simps [simp del]

definition generate :: "env \<Rightarrow> string \<Rightarrow> world \<Rightarrow> (exn + string) \<times> world" where
  "generate E prompt w = retry (generate_body E prompt) 1 w"

subsection \<open>Compliance evaluation (\<^verbatim>\<open>app/core/compliance.py\<close>)\<close>

datatype RegulationType = GDPR | HIPAA | CCPA | SOX | PCI_DSS | FERPA

text \<open>\<^verbatim>\<open>regulation.value\<close>.\<close>

fun reg_value :: "RegulationType \<Rightarrow> string" where
  "reg_value GDPR = ''gdpr''"
| "reg_value HIPAA = ''hipaa''"
| "reg_value CCPA = ''ccpa''"
| "reg_value SOX = ''sox''"
| "reg_value PCI_DSS = ''pci_dss''"
| "reg_value FERPA = ''ferpa''"

text \<open>
  The clause as the pipeline passes it on. \<open>clause_data\<close> holds the six keys that
  \<^verbatim>\<open>analyze_contract\<close> hands to \<^verbatim>\<open>analyze_compliance\<close>; the dictionary that
  \<^verbatim>\<open>_process_clause\<close> builds has the key \<^verbatim>\<open>id\<close> besides, and \<^verbatim>\<open>ClauseAnalysis\<close> the field
  \<^verbatim>\<open>risk_score\<close> on top. (\<open>clause_text\<close> is the key \<^verbatim>\<open>text\<close>, \<open>clause_id\<close> the key
  \<^verbatim>\<open>id\<close>.)
\<close>

record clause_data =
  clause_text :: string
  primary_category :: string
  secondary_categories :: "string list"
  obligations :: "string list"
  deadlines :: "string list"
  compliance_risks :: "string list"

record clause_dict = clause_data +
  clause_id :: string

record ClauseAnalysis = clause_dict +
  risk_score :: rat

definition NL :: string where
  "NL = [CHR 0x0A]"

text \<open>
  \<^verbatim>\<open>self.compliance_prompt.format(regulation=..., text=..., ...)\<close>: the template of
  \<^verbatim>\<open>setup_prompts\<close> with its fields filled in and its doubled braces single.
\<close>

definition compliance_prompt ::
  "string \<Rightarrow> string \<Rightarrow> string \<Rightarrow> string \<Rightarrow> string \<Rightarrow> string \<Rightarrow> string \<Rightarrow> string" where
  \<open>compliance_prompt regulation txt primary secondary obls dls risks =
     join NL
      [''You are a compliance expert. Analyze the following clause for '' @ regulation @ '' compliance.'',
       '''',
       ''Clause Details:'',
       ''Primary Category: '' @ primary,
       ''Secondary Categories: '' @ secondary,
       ''Obligations:'',
       obls,
       ''Deadlines:'',
       dls,
       ''Identified Compliance Risks:'',
       risks,
       '''',
       ''Complete Clause Text:'',
       txt,
       '''',
       ''Analyze considering:'',
       ''1. The appropriateness of the categorization'',
       ''2. The completeness of obligations'',
       ''3. The accuracy of identified risks'',
       ''4. Specific '' @ regulation @ '' requirements'',
       ''5. Deadlines and timing requirements'',
       '''',
       ''Provide your analysis in this exact JSON format:'',
       ''{'',
       ''    "compliant": false,'',
       ''    "requirements_met": ['',
       ''        "List specific requirements that are met"'',
       ''    ],'',
       ''    "requirements_missing": ['',
       ''        "List specific missing requirements"'',
       ''    ],'',
       ''    "risk_level": "high/medium/low",'',
       ''    "findings": ['',
       ''        "List detailed findings considering all provided context"'',
       ''    ],'',
       ''    "recommendations": ['',
       ''        "List specific, actionable recommendations"'',
       ''    ]'',
       ''}'',
       '''',
       ''Return ONLY the JSON object. Use only "high", "medium", or "low" for risk_level.'']\<close>

text \<open>
  \<^verbatim>\<open>
  def _validate_risk_level(self, risk_level: str) -> str:
      if not isinstance(risk_level, str):
          return "high"
      risk_level = risk_level.lower().strip()
      valid_levels = ["high", "medium", "low"]
      return risk_level if risk_level in valid_levels else "high"
  \<close>
\<close>

definition validate_risk_level :: "json \<Rightarrow> string" where
  "validate_risk_level risk_level =
     (case risk_level of
        JStr s \<Rightarrow>
          (let r = strip (lower s)
           in if r \<in> set [''high'', ''medium'', ''low''] then r else ''high'')
      | _ \<Rightarrow> ''high'')"

text \<open>
  \<^verbatim>\<open>
  def _get_default_result(self) -> Dict[str, Any]:
      return {
          "compliant": False,
          "requirements_met": [],
          "requirements_missing": ["Analysis failed"],
          "risk_level": "high",
          "findings": ["Unable to analyze clause"],
          "recommendations": ["Perform manual review"]
      }
  \<close>
\<close>

definition get_default_result :: pydict where
  "get_default_result =
     [(''compliant'', JBool False),
      (''requirements_met'', JArr []),
      (''requirements_missing'', JArr [JStr ''Analysis failed'']),
      (''risk_level'', JStr ''high''),
      (''findings'', JArr [JStr ''Unable to analyze clause'']),
      (''recommendations'', JArr [JStr ''Perform manual review''])]"

text \<open>
  The body of the \<^verbatim>\<open>try\<close> of \<^verbatim>\<open>_analyze_single_regulation\<close>:
  \<^verbatim>\<open>
  formatted_prompt = self.compliance_prompt.format(
      regulation=regulation.value,
      text=clause.get("text", ""),
      primary_category=clause.get("primary_category", ""),
      secondary_categories=", ".join(clause.get("secondary_categories", [])),
      obligations="\n".join(f"- {o}" for o in clause.get("obligations", [])),
      deadlines="\n".join(f"- {d}" for d in clause.get("deadlines", [])),
      compliance_risks="\n".join(f"- {r}" for r in clause.get("compliance_risks", []))
  )
  response = await self.llm.generate(formatted_prompt)
  cleaned_response = self._extract_json_from_response(response)
  if not cleaned_response:
      raise ValueError("No valid JSON found in response")
  result = json.loads(cleaned_response)
  return {
      "compliant": bool(result.get("compliant", False)),
      "requirements_met": result.get("requirements_met", []),
      "requirements_missing": result.get("requirements_missing", []),
      "risk_level": self._validate_risk_level(result.get("risk_level", "high")),
      "findings": result.get("findings", []),
      "recommendations": result.get("recommendations", [])
  }
  \<close>
\<close>

definition format_prompt :: "'a clause_data_scheme \<Rightarrow> RegulationType \<Rightarrow> string" where
  "format_prompt clause regulation =
     compliance_prompt (reg_value regulation) (clause_text clause) (primary_category clause)
       (join '', '' (secondary_categories clause))
       (join NL (map (\<lambda>o'. ''- '' @ o') (obligations clause)))
       (join NL (map (\<lambda>d. ''- '' @ d) (deadlines clause)))
       (join NL (map (\<lambda>r. ''- '' @ r) (compliance_risks clause)))"

definition result_dict :: "json \<Rightarrow> exn + pydict" where
  "result_dict result =
     (case result of
        JObj d \<Rightarrow>
          Inr [(''compliant'', JBool (truthy (dict_get d ''compliant'' (JBool False)))),
               (''requirements_met'', dict_get d ''requirements_met'' (JArr [])),
               (''requirements_missing'', dict_get d ''requirements_missing'' (JArr [])),
               (''risk_level'', JStr (validate_risk_level (dict_get d ''risk_level'' (JStr ''high'')))),
               (''findings'', dict_get d ''findings'' (JArr [])),
               (''recommendations'', dict_get d ''recommendations'' (JArr []))]
      | _ \<Rightarrow> Inl (AttributeError ''object has no attribute 'get' ''))"

definition single_regulation_try ::
  "env \<Rightarrow> 'a clause_data_scheme \<Rightarrow> RegulationType \<Rightarrow> world \<Rightarrow> (exn + pydict) \<times> world" where
  "single_regulation_try E clause regulation w =
     (case generate E (format_prompt clause regulation) w of
        (Inl e, w1) \<Rightarrow> (Inl e, w1)
      | (Inr response, w1) \<Rightarrow>
          (case extract_json_from_response (json_loads E) response of
             None \<Rightarrow> (Inl (ValueError ''No valid JSON found in response''), w1)
           | Some cleaned_response \<Rightarrow>
               if cleaned_response = [] then
                 (Inl (ValueError ''No valid JSON found in response''), w1)
               else
                 (case json_loads E cleaned_response of
                    Inl e \<Rightarrow> (Inl e, w1)
                  | Inr result \<Rightarrow> (result_dict result, w1))))"

text \<open>
  \<^verbatim>\<open>_analyze_single_regulation\<close>: the \<^verbatim>\<open>try\<close> above under
  \<^verbatim>\<open>except Exception as e: ... return self._get_default_result()\<close>.
  The result is a sum like that of every function that may raise; this one never
  does (\<open>analyze_single_regulation_returns\<close> below).
\<close>

definition analyze_single_regulation ::
  "env \<Rightarrow> 'a clause_data_scheme \<Rightarrow> RegulationType \<Rightarrow> world \<Rightarrow> (exn + pydict) \<times> world" where
  "analyze_single_regulation E clause regulation w =
     (case single_regulation_try E clause regulation w of
        (Inl e, w1) \<Rightarrow> (Inr get_default_result, w1)
      | (Inr d, w1) \<Rightarrow> (Inr d, w1))"

text \<open>
  \<^verbatim>\<open>
  async def analyze_compliance(self, clause, regulations):
      try:
          results = {}
          for regulation in regulations:
              try:
                  results[regulation.value] = await self._analyze_single_regulation(
                      clause, regulation)
              except Exception as e:
                  results[regulation.value] = self._get_default_result()
          return results
      except Exception as e:
          return {reg.value: self._get_default_result() for reg in regulations}
  \<close>
  \<open>compliance_loop\<close> is the \<^verbatim>\<open>for\<close> loop with the dictionary \<open>results\<close> built so far.
  Nothing in the loop raises outside the inner \<^verbatim>\<open>try\<close>, so the outer handler has no
  branch.
\<close>

fun compliance_loop ::
  "env \<Rightarrow> 'a clause_data_scheme \<Rightarrow> RegulationType list \<Rightarrow> (string \<times> pydict) list \<Rightarrow> world
     \<Rightarrow> (string \<times> pydict) list \<times> world" where
  "compliance_loop E clause [] results w = (results, w)"
| "compliance_loop E clause (regulation # regulations) results w =
     (case analyze_single_regulation E clause regulation w of
        (Inr d, w1) \<Rightarrow>
          compliance_loop E clause regulations (AList.update (reg_value regulation) d results) w1
      | (Inl e, w1) \<Rightarrow>
          compliance_loop E clause regulations
            (AList.update (reg_value regulation) get_default_result results) w1)"

definition analyze_compliance ::
  "env \<Rightarrow> 'a clause_data_scheme \<Rightarrow> RegulationType list \<Rightarrow> world \<Rightarrow> (string \<times> pydict) list \<times> world" where
  "analyze_compliance E clause regulations w = compliance_loop E clause regulations [] w"

subsection \<open>Clause extraction (\<^verbatim>\<open>app/core/compliance.py\<close>)\<close>

text \<open>
  \<^verbatim>\<open>self.extraction_prompt\<close>. \<^verbatim>\<open>extract_clauses\<close> appends the contract to it with \<^verbatim>\<open>+\<close>, so
  the field \<^verbatim>\<open>{text}\<close> stays in the prompt as it is written.
\<close>

definition extraction_prompt :: string where
  \<open>extraction_prompt =
     join NL
      [''Analyze the contract below and extract its clauses.'',
       '''',
       ''Output Format:'',
       ''{'',
       ''    "clauses": ['',
       ''        {'',
       ''            "text": "The actual clause text",'',
       ''            "primary_category": "choose from categories below",'',
       ''            "secondary_categories": ["array", "of", "categories"],'',
       ''            "obligations": ["list", "of", "obligations"],'',
       ''            "deadlines": ["list", "of", "deadlines"],'',
       ''            "compliance_risks": ["list", "of", "risks"]'',
       ''        }'',
       ''    ]'',
       ''}'',
       '''',
       ''Categories: data_privacy, security, liability, termination, payment, confidentiality, intellectual_property, compliance, force_majeure, dispute_resolution'',
       '''',
       ''Contract:'',
       ''{text}'']\<close>

text \<open>
  \<^verbatim>\<open>re.sub(a\s*b\s*c, 'ab c', s)\<close> for three characters \<open>a\<close>, \<open>b\<close>, \<open>c\<close> that are no
  white space: the three patterns of \<^verbatim>\<open>_parse_json_with_fallbacks\<close> have this shape.
  \<open>match_sep\<close> gives the text behind a match at the head.
\<close>

definition match_sep :: "char \<Rightarrow> char \<Rightarrow> char \<Rightarrow> string \<Rightarrow> string option" where
  "match_sep a b c s =
     (if \<not> startswith s [a] then None
      else let s1 = dropWhile isspace (tl s)
           in if \<not> startswith s1 [b] then None
              else let s2 = dropWhile isspace (tl s1)
                   in if \<not> startswith s2 [c] then None else Some (tl s2))"

function sub_sep :: "char \<Rightarrow> char \<Rightarrow> char \<Rightarrow> string \<Rightarrow> string" where
  "sub_sep a b c [] = []"
| "sub_sep a b c (x # xs) =
     (case match_sep a b c (x # xs) of
        Some rest \<Rightarrow> [a, b, CHR '' '', c] @ sub_sep a b c rest
      | None \<Rightarrow> x # sub_sep a b c xs)"
  by pat_completeness auto
termination
proof (relation "measure (\<lambda>(a, b, c, s). length s)")
  show "wf (measure (\<lambda>(a, b, c, s). length s))" by simp
next
  fix a b c x :: char and xs rest
  assume m: "match_sep a b c (x # xs) = Some rest"
  define s1 where "s1 = dropWhile isspace xs"
  define s2 where "s2 = dropWhile isspace (tl s1)"
  from m have rest: "rest = tl s2"
    by (simp add: match_sep_def s1_def s2_def Let_def split: if_splits)
  have "length s2 \<le> length (tl s1)" unfolding s2_def by (rule length_dropWhile_le)
  moreover have "length s1 \<le> length xs" unfolding s1_def by (rule length_dropWhile_le)
  ultimately have "length rest \<le> length xs" by (simp add: rest)
  then show "((a, b, c, rest), a, b, c, x # xs) \<in> measure (\<lambda>(a, b, c, s). length s)" by simp
next
  fix a b c x :: char and xs
  show "((a, b, c, xs), a, b, c, x # xs) \<in> measure (\<lambda>(a, b, c, s). length s)" by simp
qed

text \<open>
  \<^verbatim>\<open>
  def _parse_json_with_fallbacks(self, json_str: str) -> Optional[Dict]:
      try:
          try:
              return json.loads(json_str)
          except json.JSONDecodeError:
              ...
          cleaned = json_str.replace('\n', ' ').replace('\r', '')
          cleaned = re.sub(r'"\s*:\s*"', '": "', cleaned)
          cleaned = re.sub(r'"\s*:\s*\[', '": [', cleaned)
          cleaned = re.sub(r'\]\s*,\s*"', '], "', cleaned)
          try:
              return json.loads(cleaned)
          except json.JSONDecodeError:
              ...
          clauses_content = re.findall(r'\{[^{}]*\}', cleaned)
          if clauses_content:
              reconstructed = {"clauses": []}
              for clause in clauses_content:
                  try:
                      clause_obj = json.loads(clause)
                      reconstructed["clauses"].append(clause_obj)
                  except:
                      continue
              if reconstructed["clauses"]:
                  return reconstructed
          return None
      except Exception as e:
          return None
  \<close>
\<close>

definition cleanup_json :: "string \<Rightarrow> string" where
  "cleanup_json json_str =
     (let c0 = filter (\<lambda>c. c \<noteq> CHR 0x0D) (map (\<lambda>c. if c = CHR 0x0A then CHR '' '' else c) json_str);
          c1 = sub_sep (CHR 0x22) (CHR '':'') (CHR 0x22) c0;
          c2 = sub_sep (CHR 0x22) (CHR '':'') (CHR ''['') c1
      in sub_sep (CHR '']'') (CHR '','') (CHR 0x22) c2)"

text \<open>
  The first two attempts pass over \<^verbatim>\<open>JSONDecodeError\<close> only: another exception of the
  decoder reaches the outer handler, which returns \<^verbatim>\<open>None\<close>. The loop of the third
  attempt passes over every exception.
\<close>

definition loads_or_skip :: "decoder \<Rightarrow> string \<Rightarrow> json option" where
  "loads_or_skip loads clause = (case loads clause of Inr clause_obj \<Rightarrow> Some clause_obj | Inl e \<Rightarrow> None)"

definition parse_json_with_fallbacks :: "decoder \<Rightarrow> string \<Rightarrow> json option" where
  "parse_json_with_fallbacks loads json_str =
     (case loads json_str of
        Inr v \<Rightarrow> Some v
      | Inl e \<Rightarrow>
          if e \<noteq> JSONDecodeError then None
          else
            (let cleaned = cleanup_json json_str
             in case loads cleaned of
                  Inr v \<Rightarrow> Some v
                | Inl e' \<Rightarrow>
                    if e' \<noteq> JSONDecodeError then None
                    else
                      (let clause_objs = List.map_filter (loads_or_skip loads) (findall_flat cleaned)
                       in if clause_objs \<noteq> [] then Some (JObj [(''clauses'', JArr clause_objs)])
                          else None)))"

text \<open>
  \<^verbatim>\<open>_clean_text\<close> on any decoded value: the empty string for what is not a \<^verbatim>\<open>str\<close>.
\<close>

definition clean_text_value :: "json \<Rightarrow> string" where
  "clean_text_value v = (case v of JStr s \<Rightarrow> clean_text s | _ \<Rightarrow> [])"

text \<open>
  \<^verbatim>\<open>
  def _validate_category(self, category: str) -> str:
      if not category:
          return "other"
      category = self._clean_text(str(category)).lower().replace(" ", "_")
      valid_categories = {item.value for item in ClauseCategory}
      return category if category in valid_categories else "other"
  \<close>
  For a value that is no \<^verbatim>\<open>str\<close>, \<^verbatim>\<open>str(category)\<close> is the text of a number, of
  \<^verbatim>\<open>True\<close> or of a list or dictionary, and none of these is a category name.
\<close>

definition valid_categories :: "string list" where
  "valid_categories =
     [''data_privacy'', ''security'', ''liability'', ''termination'', ''payment'',
      ''confidentiality'', ''intellectual_property'', ''compliance'', ''force_majeure'',
      ''dispute_resolution'']"

definition validate_category :: "json \<Rightarrow> string" where
  "validate_category category =
     (if \<not> truthy category then ''other''
      else case category of
             JStr s \<Rightarrow>
               (let c = map (\<lambda>x. if x = CHR '' '' then CHR ''_'' else x) (lower (clean_text s))
                in if c \<in> set valid_categories then c else ''other'')
           | _ \<Rightarrow> ''other'')"

text \<open>
  \<^verbatim>\<open>
  def _process_list(self, items: list, processor_func) -> List[str]:
      if not items or not isinstance(items, list):
          return []
      processed = []
      for item in items:
          try:
              processed_item = processor_func(item)
              if processed_item:
                  processed.append(processed_item)
          except Exception:
              continue
      return processed
  \<close>
\<close>

definition process_list :: "json \<Rightarrow> (json \<Rightarrow> string) \<Rightarrow> string list" where
  "process_list items processor_func =
     (case items of
        JArr xs \<Rightarrow> filter (\<lambda>p. p \<noteq> []) (map processor_func xs)
      | _ \<Rightarrow> [])"

text \<open>
  \<^verbatim>\<open>
  def _process_clause(self, clause: Dict) -> Optional[Dict]:
      try:
          text = self._clean_text(clause.get("text", ""))
          if not text:
              return None
          return {
              "id": str(uuid.uuid4()),
              "text": text,
              "primary_category": self._validate_category(clause.get("primary_category", "other")),
              "secondary_categories": self._process_list(
                  clause.get("secondary_categories", []), self._validate_category),
              "obligations": self._process_list(clause.get("obligations", []), self._clean_text),
              "deadlines": self._process_list(clause.get("deadlines", []), self._clean_text),
              "compliance_risks": self._process_list(
                  clause.get("compliance_risks", []), self._clean_text)
          }
      except Exception as e:
          return None
  \<close>
  A clause that is no dictionary has no \<^verbatim>\<open>get\<close>; the handler turns that into \<^verbatim>\<open>None\<close>.
\<close>

definition process_clause :: "env \<Rightarrow> json \<Rightarrow> world \<Rightarrow> clause_dict option \<times> world" where
  "process_clause E clause w =
     (case clause of
        JObj d \<Rightarrow>
          (let txt = clean_text_value (dict_get d ''text'' (JStr []))
           in if txt = [] then (None, w)
              else
                (Some \<lparr>clause_text = txt,
                       primary_category = validate_category (dict_get d ''primary_category'' (JStr ''other'')),
                       secondary_categories =
                         process_list (dict_get d ''secondary_categories'' (JArr [])) validate_category,
                       obligations = process_list (dict_get d ''obligations'' (JArr [])) clean_text_value,
                       deadlines = process_list (dict_get d ''deadlines'' (JArr [])) clean_text_value,
                       compliance_risks =
                         process_list (dict_get d ''compliance_risks'' (JArr [])) clean_text_value,
                       clause_id = uuid4 E (uuids w)\<rparr>,
                 w\<lparr>uuids := uuids w + 1\<rparr>))
      | _ \<Rightarrow> (None, w))"

text \<open>
  \<^verbatim>\<open>
  def _extract_clauses_from_data(self, data: Dict) -> List[Dict]:
      try:
          clauses = data.get("clauses", [])
          if isinstance(clauses, dict):
              clauses = [clauses]
          elif not isinstance(clauses, list):
              raise ValueError("Invalid clauses format")
          valid_clauses = []
          for clause in clauses:
              processed = self._process_clause(clause)
              if processed:
                  valid_clauses.append(processed)
          return valid_clauses
      except Exception as e:
          return []
  \<close>
\<close>

fun process_clauses :: "env \<Rightarrow> json list \<Rightarrow> world \<Rightarrow> clause_dict list \<times> world" where
  "process_clauses E [] w = ([], w)"
| "process_clauses E (clause # clauses) w =
     (let (processed, w1) = process_clause E clause w;
          (valid_clauses, w2) = process_clauses E clauses w1
      in (case processed of None \<Rightarrow> valid_clauses | Some p \<Rightarrow> p # valid_clauses, w2))"

definition extract_clauses_from_data :: "env \<Rightarrow> json \<Rightarrow> world \<Rightarrow> clause_dict list \<times> world" where
  "extract_clauses_from_data E data w =
     (case json_get data ''clauses'' (JArr []) of
        Inl e \<Rightarrow> ([], w)
      | Inr (JObj d) \<Rightarrow> process_clauses E [JObj d] w
      | Inr (JArr clauses) \<Rightarrow> process_clauses E clauses w
      | Inr _ \<Rightarrow> ([], w))"

text \<open>\<^verbatim>\<open>str(n)\<close> for an integer: its decimal digits.\<close>

function str_nat :: "nat \<Rightarrow> string" where
  "str_nat n = (if n < 10 then [char_of (48 + n)] else str_nat (n div 10) @ [char_of (48 + n mod 10)])"
  by pat_completeness auto
termination
  by (relation "measure id") auto

declare str_nat.simps [simp del]

definition str_int :: "int \<Rightarrow> string" where
  "str_int i = (if i < 0 then CHR ''-'' # str_nat (nat (- i)) else str_nat (nat i))"

text \<open>
  The state of a \<^verbatim>\<open>ComplianceAnalyzer\<close> object is its dictionary \<^verbatim>\<open>self._clause_cache\<close>,
  which \<^verbatim>\<open>__init__\<close> sets to \<^verbatim>\<open>{}\<close>. (\<^verbatim>\<open>_get_clause_hash\<close> is \<^verbatim>\<open>str(hash(text))\<close>; its
  \<^verbatim>\<open>lru_cache\<close> stores results of a pure function and changes no value.)
\<close>

record ComplianceAnalyzer =
  clause_cache :: "(string \<times> clause_dict list) list"

definition ComplianceAnalyzer_init :: ComplianceAnalyzer where
  "ComplianceAnalyzer_init = \<lparr>clause_cache = []\<rparr>"

definition get_clause_hash :: "env \<Rightarrow> string \<Rightarrow> string" where
  "get_clause_hash E txt = str_int (py_hash E txt)"

text \<open>
  \<^verbatim>\<open>
  async def extract_clauses(self, contract_text: str) -> List[Dict]:
      try:
          cache_key = self._get_clause_hash(contract_text)
          if cache_key in self._clause_cache:
              return self._clause_cache[cache_key]
          response = await self.llm.generate(self.extraction_prompt + contract_text)
          if not response:
              raise ComplianceError("Empty response from LLM")
          cleaned_json = self._clean_json_response(response)
          if not cleaned_json:
              raise ComplianceError("Failed to extract valid JSON from response")
          data = self._parse_json_with_fallbacks(cleaned_json)
          if not data:
              raise ComplianceError("Failed to parse response as JSON")
          clauses = self._extract_clauses_from_data(data)
          if not clauses:
              raise ComplianceError("No valid clauses found in response")
          self._clause_cache[cache_key] = clauses
          return clauses
      except Exception as e:
          raise ComplianceError(str(e))
  \<close>
\<close>

definition extract_clauses ::
  "env \<Rightarrow> ComplianceAnalyzer \<Rightarrow> string \<Rightarrow> world
     \<Rightarrow> (exn + clause_dict list) \<times> ComplianceAnalyzer \<times> world" where
  "extract_clauses E self contract_text w =
     (let cache_key = get_clause_hash E contract_text
      in case map_of (clause_cache self) cache_key of
           Some cached \<Rightarrow> (Inr cached, self, w)
         | None \<Rightarrow>
             (case generate E (extraction_prompt @ contract_text) w of
                (Inl e, w1) \<Rightarrow> (Inl (ComplianceError (exn_str e)), self, w1)
              | (Inr response, w1) \<Rightarrow>
                  if response = [] then (Inl (ComplianceError ''Empty response from LLM''), self, w1)
                  else
                    (case clean_json_response response of
                       None \<Rightarrow>
                         (Inl (ComplianceError ''Failed to extract valid JSON from response''), self, w1)
                     | Some cleaned_json \<Rightarrow>
                         if cleaned_json = [] then
                           (Inl (ComplianceError ''Failed to extract valid JSON from response''), self, w1)
                         else
                           (case parse_json_with_fallbacks (json_loads E) cleaned_json of
                              None \<Rightarrow>
                                (Inl (ComplianceError ''Failed to parse response as JSON''), self, w1)
                            | Some data \<Rightarrow>
                                if \<not> truthy data then
                                  (Inl (ComplianceError ''Failed to parse response as JSON''), self, w1)
                                else
                                  (let (clauses, w2) = extract_clauses_from_data E data w1
                                   in if clauses = [] then
                                        (Inl (ComplianceError ''No valid clauses found in response''),
                                         self, w2)
                                      else
                                        (Inr clauses,
                                         self\<lparr>clause_cache :=
                                                AList.update cache_key clauses (clause_cache self)\<rparr>,
                                         w2))))))"

subsection \<open>The pipeline (\<^verbatim>\<open>app/core/analyzer.py\<close>, \<^verbatim>\<open>app/models/schemas.py\<close>)\<close>

text \<open>
  \<^verbatim>\<open>
  class ComplianceResult(BaseModel):
      compliant: bool = Field(default=False)
      requirements_met: List[str] = Field(default_factory=list)
      requirements_missing: List[str] = Field(default_factory=list)
      risk_level: str = Field(default="high")
      findings: List[str] = Field(default_factory=list)
      recommendations: List[str] = Field(default_factory=list)
  \<close>
\<close>

record ComplianceResult =
  compliant :: bool
  requirements_met :: "string list"
  requirements_missing :: "string list"
  risk_level :: string
  findings :: "string list"
  recommendations :: "string list"

text \<open>\<^verbatim>\<open>ComplianceResult()\<close>: every field at its default.\<close>

definition ComplianceResult_default :: ComplianceResult where
  "ComplianceResult_default =
     \<lparr>compliant = False, requirements_met = [], requirements_missing = [],
      risk_level = ''high'', findings = [], recommendations = []\<rparr>"

text \<open>
  The validation of the constructor. A field \<^verbatim>\<open>List[str]\<close> takes a list whose items
  are all \<^verbatim>\<open>str\<close> and rejects every other decoded value; \<^verbatim>\<open>str\<close> takes a \<^verbatim>\<open>str\<close>. The
  field \<^verbatim>\<open>compliant\<close> only ever receives a \<^verbatim>\<open>bool\<close> here, since
  \<^verbatim>\<open>_analyze_single_regulation\<close> applies \<^verbatim>\<open>bool()\<close> and the defaults are \<^verbatim>\<open>False\<close>.
\<close>

definition validate_bool :: "json \<Rightarrow> exn + bool" where
  "validate_bool v = (case v of JBool b \<Rightarrow> Inr b | _ \<Rightarrow> Inl PydanticValidationError)"

definition validate_str :: "json \<Rightarrow> exn + string" where
  "validate_str v = (case v of JStr s \<Rightarrow> Inr s | _ \<Rightarrow> Inl PydanticValidationError)"

fun str_items :: "json list \<Rightarrow> string list option" where
  "str_items [] = Some []"
| "str_items (JStr s # xs) = (case str_items xs of None \<Rightarrow> None | Some ys \<Rightarrow> Some (s # ys))"
| "str_items (x # xs) = None"

definition validate_str_list :: "json \<Rightarrow> exn + string list" where
  "validate_str_list v =
     (case v of
        JArr xs \<Rightarrow> (case str_items xs of Some ys \<Rightarrow> Inr ys | None \<Rightarrow> Inl PydanticValidationError)
      | _ \<Rightarrow> Inl PydanticValidationError)"

text \<open>
  \<^verbatim>\<open>
  ComplianceResult(
      compliant=reg_data.get("compliant", False),
      requirements_met=reg_data.get("requirements_met", []),
      requirements_missing=reg_data.get("requirements_missing", []),
      risk_level=reg_data.get("risk_level", "high"),
      findings=reg_data.get("findings", []),
      recommendations=reg_data.get("recommendations", []))
  \<close>
\<close>

definition ComplianceResult_of :: "pydict \<Rightarrow> exn + ComplianceResult" where
  "ComplianceResult_of reg_data =
     (case (validate_bool (dict_get reg_data ''compliant'' (JBool False)),
            validate_str_list (dict_get reg_data ''requirements_met'' (JArr [])),
            validate_str_list (dict_get reg_data ''requirements_missing'' (JArr [])),
            validate_str (dict_get reg_data ''risk_level'' (JStr ''high'')),
            validate_str_list (dict_get reg_data ''findings'' (JArr [])),
            validate_str_list (dict_get reg_data ''recommendations'' (JArr []))) of
        (Inr c, Inr met, Inr missing, Inr risk, Inr fs, Inr recs) \<Rightarrow>
          Inr \<lparr>compliant = c, requirements_met = met, requirements_missing = missing,
               risk_level = risk, findings = fs, recommendations = recs\<rparr>
      | _ \<Rightarrow> Inl PydanticValidationError)"

text \<open>
  The report. \<^verbatim>\<open>analysis_timestamp\<close> and \<^verbatim>\<open>summary\<close> are left out: the summary is
  computed from \<open>clauses\<close> and \<open>compliance_results\<close> by \<^verbatim>\<open>ReportGenerator\<close>, whose
  \<^verbatim>\<open>_generate_summary\<close> catches every exception, so it decides neither whether a
  report is returned nor any other field of it.
\<close>

record AnalysisReport =
  file_name :: string
  regulations :: "RegulationType list"
  clauses :: "ClauseAnalysis list"
  compliance_results :: "(string \<times> (string \<times> ComplianceResult) list) list"

text \<open>
  The state of a \<^verbatim>\<open>ContractAnalyzer\<close> object: its \<^verbatim>\<open>ComplianceAnalyzer\<close>, created by
  \<^verbatim>\<open>__init__\<close> (\<^verbatim>\<open>self.compliance_analyzer = ComplianceAnalyzer(llm_service)\<close>).
\<close>

record ContractAnalyzer =
  compliance_analyzer :: ComplianceAnalyzer

definition ContractAnalyzer_init :: ContractAnalyzer where
  "ContractAnalyzer_init = \<lparr>compliance_analyzer = ComplianceAnalyzer_init\<rparr>"

text \<open>
  The conversion of a clause dictionary:
  \<^verbatim>\<open>ClauseAnalysis(id=clause["id"], text=clause["text"], ..., risk_score=5.0)\<close>.
\<close>

definition to_ClauseAnalysis :: "clause_dict \<Rightarrow> ClauseAnalysis" where
  "to_ClauseAnalysis clause = clause_dict.extend clause (ClauseAnalysis.fields 5)"

text \<open>
  The inner loop of \<^verbatim>\<open>analyze_contract\<close>, over the regulations of one clause:
  \<^verbatim>\<open>
  for regulation in regulations:
      try:
          clause_data = {"text": clause.text, ...}
          reg_result = await self.compliance_analyzer.analyze_compliance(
              clause_data, [regulation])
          reg_data = reg_result.get(regulation.value, {})
          compliance_result = ComplianceResult(compliant=reg_data.get("compliant", False), ...)
          clause_results[regulation.value] = compliance_result
      except Exception as e:
          clause_results[regulation.value] = ComplianceResult()
  \<close>
\<close>

definition evaluate_pair ::
  "env \<Rightarrow> ClauseAnalysis \<Rightarrow> RegulationType \<Rightarrow> world \<Rightarrow> ComplianceResult \<times> world" where
  "evaluate_pair E clause regulation w =
     (let clause_data = clause_data.truncate clause;
          (reg_result, w1) = analyze_compliance E clause_data [regulation] w;
          reg_data = (case map_of reg_result (reg_value regulation) of Some d \<Rightarrow> d | None \<Rightarrow> [])
      in case ComplianceResult_of reg_data of
           Inr compliance_result \<Rightarrow> (compliance_result, w1)
         | Inl e \<Rightarrow> (ComplianceResult_default, w1))"

fun regulations_loop ::
  "env \<Rightarrow> ClauseAnalysis \<Rightarrow> RegulationType list \<Rightarrow> (string \<times> ComplianceResult) list \<Rightarrow> world
     \<Rightarrow> (string \<times> ComplianceResult) list \<times> world" where
  "regulations_loop E clause [] clause_results w = (clause_results, w)"
| "regulations_loop E clause (regulation # rest) clause_results w =
     (let (r, w1) = evaluate_pair E clause regulation w
      in regulations_loop E clause rest (AList.update (reg_value regulation) r clause_results) w1)"

text \<open>
  The outer loop:
  \<^verbatim>\<open>
  compliance_results = {}
  for clause in clauses:
      clause_results = {}
      for regulation in regulations: ...
      compliance_results[clause.id] = clause_results
  \<close>
\<close>

fun clauses_loop ::
  "env \<Rightarrow> ClauseAnalysis list \<Rightarrow> RegulationType list
     \<Rightarrow> (string \<times> (string \<times> ComplianceResult) list) list \<Rightarrow> world
     \<Rightarrow> (string \<times> (string \<times> ComplianceResult) list) list \<times> world" where
  "clauses_loop E [] regs results w = (results, w)"
| "clauses_loop E (clause # rest) regs results w =
     (let (clause_results, w1) = regulations_loop E clause regs [] w
      in clauses_loop E rest regs (AList.update (clause_id clause) clause_results results) w1)"

text \<open>
  \<^verbatim>\<open>analyze_contract\<close>: parse the file, extract the clauses, evaluate every pair,
  assemble the report; every exception leaves as \<^verbatim>\<open>AnalysisError\<close>.
\<close>

definition analyze_contract ::
  "env \<Rightarrow> ContractAnalyzer \<Rightarrow> string \<Rightarrow> RegulationType list \<Rightarrow> world
     \<Rightarrow> (exn + AnalysisReport) \<times> ContractAnalyzer \<times> world" where
  "analyze_contract E self file_path regs w =
     (case parse_file E file_path of
        Inl e \<Rightarrow> (Inl (AnalysisError (''Contract analysis failed: '' @ exn_str e)), self, w)
      | Inr contract_text \<Rightarrow>
          (case extract_clauses E (compliance_analyzer self) contract_text w of
             (Inl e, ca, w1) \<Rightarrow>
               (Inl (AnalysisError (''Contract analysis failed: '' @ exn_str e)),
                self\<lparr>compliance_analyzer := ca\<rparr>, w1)
           | (Inr raw_clauses, ca, w1) \<Rightarrow>
               (let cls = map to_ClauseAnalysis raw_clauses;
                    (results, w2) = clauses_loop E cls regs [] w1
                in (Inr \<lparr>file_name = file_path, regulations = regs, clauses = cls,
                         compliance_results = results\<rparr>,
                    self\<lparr>compliance_analyzer := ca\<rparr>, w2))))"

subsection \<open>The routes (\<^verbatim>\<open>app/api/routes/contracts.py\<close>)\<close>

datatype http_error = HTTPException nat string

text \<open>\<^verbatim>\<open>settings.ALLOWED_EXTENSIONS\<close> and the check of the file name.\<close>

definition ALLOWED_EXTENSIONS :: "string list" where
  "ALLOWED_EXTENSIONS = [''.pdf'', ''.docx'', ''.doc'', ''.txt'']"

definition allowed_file :: "upload \<Rightarrow> bool" where
  "allowed_file file =
     (case filename file of
        None \<Rightarrow> False
      | Some f \<Rightarrow> f \<noteq> [] \<and> (\<exists>ext \<in> set ALLOWED_EXTENSIONS. endswith (lower f) ext))"

text \<open>
  \<^verbatim>\<open>POST /contracts/analyze\<close>. Every request builds its own analyzer:
  \<^verbatim>\<open>
  analyzer = ContractAnalyzer(llm_service)
  results = await analyzer.analyze_contract(temp_path, request.regulations)
  return results
  \<close>
  \<^verbatim>\<open>ValidationError\<close> becomes status 400, every other exception status 500. (The
  deletion of the temporary files is outside the model.)
\<close>

definition analyze_contract_route ::
  "env \<Rightarrow> upload \<Rightarrow> RegulationType list \<Rightarrow> world \<Rightarrow> (http_error + AnalysisReport) \<times> world" where
  "analyze_contract_route E file regs w =
     (if \<not> allowed_file file then (Inl (HTTPException 400 ''Invalid file type''), w)
      else case save_temp_file E file of
             Inl e \<Rightarrow> (Inl (HTTPException 500 (exn_str e)), w)
           | Inr temp_path \<Rightarrow>
               (let analyzer = ContractAnalyzer_init
                in case analyze_contract E analyzer temp_path regs w of
                     (Inl e, a, w1) \<Rightarrow> (Inl (HTTPException 500 (exn_str e)), w1)
                   | (Inr results, a, w1) \<Rightarrow> (Inr results, w1)))"

text \<open>
  The loop of the batch route over the uploaded files: the first file with a wrong
  name raises \<^verbatim>\<open>ValidationError\<close>, a failed save raises \<^verbatim>\<open>StorageError\<close>.
\<close>

fun save_files :: "env \<Rightarrow> upload list \<Rightarrow> exn + string list" where
  "save_files E [] = Inr []"
| "save_files E (file # files) =
     (if \<not> allowed_file file then Inl (ValidationError ''Invalid file type'')
      else case save_temp_file E file of
             Inl e \<Rightarrow> Inl e
           | Inr temp_path \<Rightarrow>
               (case save_files E files of
                  Inl e \<Rightarrow> Inl e
                | Inr temp_paths \<Rightarrow> Inr (temp_path # temp_paths)))"

text \<open>
  The methods that \<^verbatim>\<open>class ContractAnalyzer\<close> defines besides \<^verbatim>\<open>__init__\<close>. Looking up
  any other name on an analyzer raises \<^verbatim>\<open>AttributeError\<close>.
\<close>

definition ContractAnalyzer_methods :: "string list" where
  "ContractAnalyzer_methods = [''analyze_contract'']"

definition ContractAnalyzer_getattr :: "string \<Rightarrow> exn + string" where
  "ContractAnalyzer_getattr name =
     (if name \<in> set ContractAnalyzer_methods then Inr name
      else Inl (AttributeError (''ContractAnalyzer object has no attribute '' @ name)))"

text \<open>
  \<^verbatim>\<open>POST /contracts/analyze-batch\<close>:
  \<^verbatim>\<open>
  try:
      temp_paths = []
      async with get_storage_service(settings) as storage_service:
          for file in files:
              if not file.filename or not file.filename.lower().endswith(...):
                  raise ValidationError(f"Invalid file type: {file.filename}")
              temp_path = await storage_service.save_temp_file(file)
              temp_paths.append(temp_path)
              ...
          async with get_llm_service(settings) as llm_service:
              analyzer = ContractAnalyzer(llm_service)
              results = await analyzer.analyze_multiple_contracts(temp_paths, request.regulations)
              return results
  except ValidationError as e:
      raise HTTPException(status_code=400, detail=str(e))
  except Exception as e:
      raise HTTPException(status_code=500, detail=str(e))
  \<close>
  The only method a lookup can find takes one path; called with the list of paths
  it fails in \<^verbatim>\<open>ContractParser.parse\<close> and raises \<^verbatim>\<open>AnalysisError\<close>.
\<close>

definition analyze_multiple_contracts_route ::
  "env \<Rightarrow> upload list \<Rightarrow> RegulationType list \<Rightarrow> world
     \<Rightarrow> (http_error + AnalysisReport list) \<times> world" where
  "analyze_multiple_contracts_route E files regs w =
     (case save_files E files of
        Inl (ValidationError m) \<Rightarrow> (Inl (HTTPException 400 m), w)
      | Inl e \<Rightarrow> (Inl (HTTPException 500 (exn_str e)), w)
      | Inr temp_paths \<Rightarrow>
          (case ContractAnalyzer_getattr ''analyze_multiple_contracts'' of
             Inl e \<Rightarrow> (Inl (HTTPException 500 (exn_str e)), w)
           | Inr method \<Rightarrow>
               (Inl (HTTPException 500 (exn_str (AnalysisError ''Contract analysis failed''))), w)))"

subsection \<open>Floating point\<close>










subsection \<open>The summary of a report (\<^verbatim>\<open>app/core/report.py\<close>)\<close>










subsection \<open>A concrete environment\<close>

text \<open>
  The canonical result for a pair that could not be evaluated, as a
  \<^verbatim>\<open>ComplianceResult\<close>: the fields of \<^verbatim>\<open>_get_default_result\<close>.
\<close>

definition failsafe_result :: ComplianceResult where
  "failsafe_result =
     \<lparr>compliant = False, requirements_met = [], requirements_missing = [''Analysis failed''],
      risk_level = ''high'', findings = [''Unable to analyze clause''],
      recommendations = [''Perform manual review'']\<rparr>"

text \<open>
  An environment for running the pipeline on examples: the chat model is
  unreachable for its first \<open>down\<close> calls, answers the following calls with the texts
  of a list in order, and is unreachable again afterwards; the identifiers are
  \<^verbatim>\<open>clause-0\<close>, \<^verbatim>\<open>clause-1\<close>, ...; every file holds the same one-sentence contract; the
  hash of a text is its length; the decoder is \<open>ref_loads\<close> with room for 1000 nested
  containers.
\<close>

definition stub_env :: "nat \<Rightarrow> string list \<Rightarrow> env" where
  "stub_env down answers =
     \<lparr>agenerate = (\<lambda>n prompt. if down \<le> n \<and> n < down + length answers then Text (answers ! (n - down))
                               else Raises (LLMServiceError ''connection refused'')),
      uuid4 = (\<lambda>n. ''clause-'' @ str_nat n),
      py_hash = (\<lambda>s. int (length s)),
      parse_file = (\<lambda>path. Inr ''Payment is due within 30 days.''),
      save_temp_file = (\<lambda>file. Inr ''/tmp/contract_analyzer/contract.txt''),
      json_loads = ref_loads 1000\<rparr>"

definition world_init :: world where
  "world_init = \<lparr>backend_calls = 0, attempts = 0, sleeps = [], uuids = 0\<rparr>"

definition one_clause :: string where
  \<open>one_clause = ''{"clauses": [{"text": "Payment is due within 30 days.", "primary_category": "payment"}]}''\<close>

definition malformed_verdict :: string where
  \<open>malformed_verdict = ''{"compliant": false, "findings": "none"}''\<close>

definition good_verdict :: string where
  \<open>good_verdict = ''{"compliant": true, "risk_level": "low", "findings": ["Payment term stated"]}''\<close>

definition payment_clause :: clause_data where
  "payment_clause =
     \<lparr>clause_text = ''Payment is due within 30 days.'', primary_category = ''payment'',
      secondary_categories = [], obligations = [], deadlines = [], compliance_risks = []\<rparr>"

definition contract_upload :: upload where
  "contract_upload = \<lparr>filename = Some ''contract.txt'', content = ''Payment is due within 30 days.''\<rparr>"

text \<open>
  A sequence of calls of \<^verbatim>\<open>extract_clauses\<close> on one analyzer, one per text of a list:
  the analyzer and the state after them.
\<close>

fun extract_many :: "env \<Rightarrow> ComplianceAnalyzer \<Rightarrow> string list \<Rightarrow> world \<Rightarrow> ComplianceAnalyzer \<times> world" where
  "extract_many E self [] w = (self, w)"
| "extract_many E self (t # ts) w =
     (case extract_clauses E self t w of (r, self1, w1) \<Rightarrow> extract_many E self1 ts w1)"

text \<open>
  What the loop of \<^verbatim>\<open>analyze_compliance\<close> stores for one regulation, given the outcome
  of \<^verbatim>\<open>_analyze_single_regulation\<close>: its result, or the default when it raised.
\<close>

definition entry_of :: "(exn + pydict) \<times> world \<Rightarrow> pydict" where
  "entry_of outcome = (case fst outcome of Inr d \<Rightarrow> d | Inl e \<Rightarrow> get_default_result)"



section \<open>Properties\<close>

subsection \<open>Chunking\<close>

lemma py_range_Nil: "step = 0 \<or> stop \<le> i \<Longrightarrow> py_range i stop step = []"
  by (subst py_range.simps) simp

lemma py_range_Cons:
  "0 < step \<Longrightarrow> i < stop \<Longrightarrow> py_range i stop step = i # py_range (i + step) stop step"
  by (subst py_range.simps) simp

lemma concat_chunks:
  assumes "0 < k"
  shows "concat (map (\<lambda>i. py_slice s i (i + k)) (py_range i (length s) k)) = drop i s"
  using assms
proof (induction i "length s" k rule: py_range.induct)
  case (1 i k)
  show ?case
  proof (cases "length s \<le> i")
    case True
    then show ?thesis by (simp add: py_range_Nil)
  next
    case False
    then have lt: "i < length s" by simp
    have "drop i s = take k (drop i s) @ drop (i + k) s"
      by (metis append_take_drop_id drop_drop add.commute)
    with 1 lt show ?thesis
      by (simp add: py_range_Cons py_slice_def)
  qed
qed

lemma py_range_nth:
  assumes "0 < k"
  shows "j < length (py_range i n k) \<Longrightarrow> py_range i n k ! j = i + j * k"
  using assms
proof (induction i n k arbitrary: j rule: py_range.induct)
  case (1 i n k)
  show ?case
  proof (cases "n \<le> i")
    case True
    with 1(2) show ?thesis by (simp add: py_range_Nil)
  next
    case False
    then have lt: "i < n" by simp
    show ?thesis
    proof (cases j)
      case 0
      with lt 1(3) show ?thesis by (simp add: py_range_Cons)
    next
      case (Suc j')
      with 1 lt show ?thesis by (simp add: py_range_Cons)
    qed
  qed
qed

lemma py_range_bound:
  assumes "0 < k"
  shows "x \<in> set (py_range i n k) \<Longrightarrow> x < n"
  using assms
proof (induction i n k rule: py_range.induct)
  case (1 i n k)
  show ?case
  proof (cases "n \<le> i")
    case True
    with 1(2) show ?thesis by (simp add: py_range_Nil)
  next
    case False
    with 1 show ?thesis by (auto simp: py_range_Cons)
  qed
qed

lemma py_range_butlast:
  assumes "0 < k"
  shows "x \<in> set (butlast (py_range i n k)) \<Longrightarrow> x + k < n"
  using assms
proof (induction i n k rule: py_range.induct)
  case (1 i n k)
  show ?case
  proof (cases "n \<le> i")
    case True
    with 1(2) show ?thesis by (simp add: py_range_Nil)
  next
    case False
    then have lt: "i < n" by simp
    show ?thesis
    proof (cases "n \<le> i + k")
      case True
      with 1(2) lt 1(3) show ?thesis by (simp add: py_range_Cons py_range_Nil)
    next
      case False
      then have "py_range (i + k) n k \<noteq> []"
        using 1(3) by (simp add: py_range_Cons)
      with 1 lt False show ?thesis by (auto simp: py_range_Cons)
    qed
  qed
qed

text \<open>
  C10. For a positive chunk size \<open>chunk_text\<close> returns a list of chunks: chunk number
  \<open>j\<close> is the substring of the text that starts at \<open>j * chunk_size\<close>, the chunks
  concatenated give the text back, and every chunk but the last has exactly
  \<open>chunk_size\<close> characters.
\<close>

theorem chunk_text_partition:
  assumes "0 < chunk_size"
  shows "\<exists>chunks. chunk_text text chunk_size = Inr chunks
           \<and> concat chunks = text
           \<and> (\<forall>j < length chunks.
                 chunks ! j = take (nat chunk_size) (drop (j * nat chunk_size) text))
           \<and> (\<forall>c \<in> set (butlast chunks). length c = nat chunk_size)"
proof -
  define k where "k = nat chunk_size"
  define idx where "idx = py_range 0 (length text) k"
  define chunks where "chunks = map (\<lambda>i. py_slice text i (i + k)) idx"
  have k: "0 < k" using assms by (simp add: k_def)
  have eq: "chunk_text text chunk_size = Inr chunks"
    using assms by (simp add: chunk_text_def chunks_def idx_def k_def)
  have cat: "concat chunks = text"
    using concat_chunks [OF k, of "text" 0] by (simp add: chunks_def idx_def)
  have nth: "\<forall>j < length chunks. chunks ! j = take k (drop (j * k) text)"
    using py_range_nth [OF k, of _ 0 "length text"]
    by (simp add: chunks_def idx_def py_slice_def)
  have len: "\<forall>c \<in> set (butlast chunks). length c = k"
  proof
    fix c assume "c \<in> set (butlast chunks)"
    then obtain i where i: "i \<in> set (butlast idx)" and c: "c = py_slice text i (i + k)"
      by (auto simp: chunks_def map_butlast [symmetric])
    from py_range_butlast [OF k] i have "i + k < length text" by (simp add: idx_def)
    then show "length c = k" by (simp add: c py_slice_def)
  qed
  from eq cat nth len show ?thesis by (auto simp: k_def)
qed

theorem chunk_text_partition_witness:
  "(0::int) < 2 \<and> chunk_text ''abcde'' 2 = Inr [''ab'', ''cd'', ''e'']"
  using chunk_text_partition [of 2 "''abcde''"]
  by (simp add: chunk_text_def py_slice_def py_range.simps)

subsection \<open>Text normalisation\<close>

lemma split_from_tokens:
  "\<forall>c \<in> set cur. \<not> isspace c \<Longrightarrow> w \<in> set (split_from cur s)
     \<Longrightarrow> w \<noteq> [] \<and> (\<forall>c \<in> set w. \<not> isspace c)"
proof (induction s arbitrary: cur)
  case Nil
  then show ?case by (simp split: if_splits)
next
  case (Cons c cs)
  show ?case
  proof (cases "isspace c")
    case True
    show ?thesis
    proof (cases "cur = []")
      case True
      with \<open>isspace c\<close> Cons.prems(2) have "w \<in> set (split_from [] cs)" by simp
      then show ?thesis using Cons.IH [of "[]"] by simp
    next
      case False
      with \<open>isspace c\<close> Cons.prems(2) have "w = cur \<or> w \<in> set (split_from [] cs)" by simp
      then show ?thesis
      proof
        assume "w = cur"
        with False Cons.prems(1) show ?thesis by simp
      next
        assume "w \<in> set (split_from [] cs)"
        then show ?thesis using Cons.IH [of "[]"] by simp
      qed
    qed
  next
    case False
    with Cons.prems(2) have "w \<in> set (split_from (cur @ [c]) cs)" by simp
    moreover have "\<forall>x \<in> set (cur @ [c]). \<not> isspace x" using False Cons.prems(1) by simp
    ultimately show ?thesis using Cons.IH [of "cur @ [c]"] by blast
  qed
qed

lemma split_from_word:
  "\<forall>c \<in> set w. \<not> isspace c \<Longrightarrow> split_from cur (w @ rest) = split_from (cur @ w) rest"
  by (induction w arbitrary: cur) auto

lemma space_isspace: "isspace CHR '' ''"
  by (simp add: isspace_def)

lemma split_from_join:
  "tokens_ok ws \<Longrightarrow> \<forall>c \<in> set cur. \<not> isspace c \<Longrightarrow> ws \<noteq> [] \<Longrightarrow>
   split_from cur (join '' '' ws) = (cur @ hd ws) # tl ws"
proof (induction "'' ''" ws arbitrary: cur rule: join.induct)
  case 1
  then show ?case by simp
next
  case (2 x)
  then show ?case
    using split_from_word [of x cur "[]"] by (auto simp: tokens_ok_def)
next
  case (3 x y ys)
  have "split_from cur (x @ '' '' @ join '' '' (y # ys)) = split_from (cur @ x) ('' '' @ join '' '' (y # ys))"
    using 3(2) by (intro split_from_word) (simp add: tokens_ok_def)
  also have "\<dots> = (cur @ x) # split_from [] (join '' '' (y # ys))"
    using 3(2) by (simp add: space_isspace tokens_ok_def)
  also have "split_from [] (join '' '' (y # ys)) = y # ys"
    using 3(1) [of "[]"] 3(2) by (simp add: tokens_ok_def)
  finally show ?case by simp
qed

lemma split_join: "tokens_ok ws \<Longrightarrow> split (join '' '' ws) = ws"
  using split_from_join [of ws "[]"] by (cases ws) (auto simp: split_def)

lemma split_tokens_ok: "tokens_ok (split s)"
  using split_from_tokens [of "[]" _ s] by (auto simp: tokens_ok_def split_def)

lemma join_ends:
  "tokens_ok ws \<Longrightarrow> ws \<noteq> [] \<Longrightarrow>
     join '' '' ws \<noteq> [] \<and> \<not> isspace (hd (join '' '' ws)) \<and> \<not> isspace (last (join '' '' ws))"
  by (induction "'' ''" ws rule: join.induct) (auto simp: tokens_ok_def hd_append)

lemma dropWhile_id: "s = [] \<or> \<not> P (hd s) \<Longrightarrow> dropWhile P s = s"
  by (cases s) auto

lemma strip_id:
  assumes "s = [] \<or> (\<not> isspace (hd s) \<and> \<not> isspace (last s))"
  shows "strip s = s"
proof (cases "s = []")
  case True
  then show ?thesis by (simp add: strip_def)
next
  case False
  with assms have h: "\<not> isspace (hd s)" and l: "\<not> isspace (last s)" by auto
  have "dropWhile isspace s = s" using h by (simp add: dropWhile_id)
  moreover have "dropWhile isspace (rev s) = rev s"
    using l False by (intro dropWhile_id) (simp add: hd_rev)
  ultimately show ?thesis by (simp add: strip_def)
qed

lemma strip_join:
  assumes "tokens_ok ws"
  shows "strip (join '' '' ws) = join '' '' ws"
proof (cases "ws = []")
  case True
  then show ?thesis by (simp add: strip_def)
next
  case False
  with join_ends [OF assms] show ?thesis by (intro strip_id) simp
qed

lemma clean_text_idem: "clean_text (clean_text s) = clean_text s"
  by (simp add: clean_text_def strip_join split_join split_tokens_ok)

text \<open>
  C9. Normalisation is claimed idempotent for both cleaners. The cleaner of
  \<^verbatim>\<open>compliance.py\<close> is (\<open>clean_text_idem\<close>). The cleaner of \<^verbatim>\<open>parser.py\<close> is not:
  it collapses white space first and deletes the control characters afterwards, so
  on \<^verbatim>\<open>"a \x01 b"\<close> the two spaces around the deleted character survive the first
  pass (\<^verbatim>\<open>"a  b"\<close>) and are collapsed only by a second one (\<^verbatim>\<open>"a b"\<close>).
\<close>

theorem parser_clean_text_not_idempotent:
  "parser_clean_text [CHR ''a'', CHR '' '', CHR 0x01, CHR '' '', CHR ''b''] = ''a  b''
   \<and> parser_clean_text ''a  b'' = ''a b''
   \<and> parser_clean_text (parser_clean_text [CHR ''a'', CHR '' '', CHR 0x01, CHR '' '', CHR ''b''])
       \<noteq> parser_clean_text [CHR ''a'', CHR '' '', CHR 0x01, CHR '' '', CHR ''b'']"
  by (simp add: parser_clean_text_def strip_def isspace_def)

subsection \<open>The model service\<close>

lemma generate_body_empty:
  "generate_body E [] w = (Inl (LLMServiceError ''Empty prompt provided''), w\<lparr>attempts := attempts w + 1\<rparr>)"
  by (simp add: generate_body_def)

text \<open>
  C6. An empty prompt is claimed to fail at once, with the error of the service and
  without a retry. The check of the prompt lies inside the decorated function, and
  the decorator retries on every exception: for every environment and every state
  the body runs three times, the process sleeps twice four seconds in between, the
  chat model is never called, and what leaves \<open>generate\<close> is the \<^verbatim>\<open>RetryError\<close> of the
  decorator around the \<^verbatim>\<open>LLMServiceError\<close>.
\<close>

theorem generate_empty_prompt_is_retried:
  "generate E [] w =
     (Inl (RetryError (LLMServiceError ''Empty prompt provided'')),
      w\<lparr>attempts := attempts w + 3, sleeps := sleeps w @ [4, 4]\<rparr>)"
  by (simp add: generate_def retry.simps generate_body_empty stop_after_attempt_def
      wait_exponential_def)

subsection \<open>The batch route\<close>

lemma getattr_batch:
  "ContractAnalyzer_getattr ''analyze_multiple_contracts'' =
     Inl (AttributeError ''ContractAnalyzer object has no attribute analyze_multiple_contracts'')"
  by (simp add: ContractAnalyzer_getattr_def ContractAnalyzer_methods_def)

text \<open>
  C5. The batch operation is claimed to return one report per document and to keep
  the failure of one document to that document. The route calls
  \<^verbatim>\<open>analyzer.analyze_multiple_contracts\<close>, which \<^verbatim>\<open>ContractAnalyzer\<close> does not define: for
  every list of files the answer is an HTTP error for the whole batch, status 400
  when a file name is refused and status 500 otherwise, and no document is analysed
  (the state is unchanged).
\<close>

theorem batch_route_returns_no_report:
  "\<exists>code detail. analyze_multiple_contracts_route E files regs w = (Inl (HTTPException code detail), w)
      \<and> code \<in> {400, 500}"
  by (auto simp: analyze_multiple_contracts_route_def getattr_batch split: sum.splits exn.splits)

subsection \<open>Compliance evaluation\<close>

lemma default_is_failsafe: "ComplianceResult_of get_default_result = Inr failsafe_result"
  by (simp add: ComplianceResult_of_def get_default_result_def failsafe_result_def dict_get_def
      validate_bool_def validate_str_def validate_str_list_def)

lemma reg_value_inj: "reg_value a = reg_value b \<Longrightarrow> a = b"
  by (cases a; cases b) simp_all

lemma analyze_single_regulation_returns:
  "\<exists>d w1. analyze_single_regulation E c r w = (Inr d, w1)"
  by (simp add: analyze_single_regulation_def split: prod.splits sum.splits)

lemma analyze_single_regulation_failure:
  "single_regulation_try E c r w = (Inl e, w1)
     \<Longrightarrow> analyze_single_regulation E c r w = (Inr get_default_result, w1)"
  by (simp add: analyze_single_regulation_def)

lemma compliance_loop_step:
  "compliance_loop E c (r # rs) acc w =
     compliance_loop E c rs
       (AList.update (reg_value r) (entry_of (analyze_single_regulation E c r w)) acc)
       (snd (analyze_single_regulation E c r w))"
  by (simp add: entry_of_def split: prod.splits sum.splits)

lemma compliance_loop_keys:
  "fst ` set (fst (compliance_loop E c rs acc w)) = fst ` set acc \<union> reg_value ` set rs"
proof (induction rs arbitrary: acc w)
  case Nil
  then show ?case by simp
next
  case (Cons r rs)
  show ?case
    unfolding compliance_loop_step Cons.IH by (auto simp: dom_update)
qed

lemma compliance_loop_append:
  "compliance_loop E c (xs @ ys) acc w =
     compliance_loop E c ys (fst (compliance_loop E c xs acc w)) (snd (compliance_loop E c xs acc w))"
proof (induction xs arbitrary: acc w)
  case Nil
  then show ?case by simp
next
  case (Cons x xs)
  show ?case
    unfolding append_Cons compliance_loop_step Cons.IH ..
qed

lemma compliance_loop_keeps:
  "r \<notin> set rs \<Longrightarrow>
     map_of (fst (compliance_loop E c rs acc w)) (reg_value r) = map_of acc (reg_value r)"
proof (induction rs arbitrary: acc w)
  case Nil
  then show ?case by simp
next
  case (Cons x xs)
  then have "reg_value x \<noteq> reg_value r" and "r \<notin> set xs"
    using reg_value_inj by auto
  then show ?case
    unfolding compliance_loop_step by (simp add: Cons.IH update_conv')
qed

text \<open>
  C2. A failure in the evaluation of one regulation never aborts the others. For a
  list of regulations in which \<open>r\<close> does not occur again after the place looked at,
  \<open>analyze_compliance\<close> returns a mapping with one key per requested regulation, and
  the entry of \<open>r\<close> is exactly the outcome of \<open>_analyze_single_regulation\<close> for \<open>r\<close>
  in the state the process has reached when the turn of \<open>r\<close> comes, whatever
  happened to the regulations before and after it. That evaluation always returns,
  and when its model call raises or no JSON can be extracted it returns the default
  result.
\<close>

theorem analyze_compliance_isolation:
  assumes "r \<notin> set later"
  shows "fst ` set (fst (analyze_compliance E c (earlier @ r # later) w))
           = reg_value ` set (earlier @ r # later)
       \<and> map_of (fst (analyze_compliance E c (earlier @ r # later) w)) (reg_value r)
           = Some (entry_of (analyze_single_regulation E c r (snd (analyze_compliance E c earlier w))))
       \<and> (\<exists>d w1. analyze_single_regulation E c r w0 = (Inr d, w1))
       \<and> (single_regulation_try E c r w0 = (Inl e, w1)
            \<longrightarrow> analyze_single_regulation E c r w0 = (Inr get_default_result, w1))"
proof -
  have keys: "fst ` set (fst (analyze_compliance E c (earlier @ r # later) w))
                = reg_value ` set (earlier @ r # later)"
    unfolding analyze_compliance_def compliance_loop_keys by simp
  have "map_of (fst (analyze_compliance E c (earlier @ r # later) w)) (reg_value r)
          = map_of (AList.update (reg_value r)
                      (entry_of (analyze_single_regulation E c r (snd (analyze_compliance E c earlier w))))
                      (fst (analyze_compliance E c earlier w))) (reg_value r)"
    unfolding analyze_compliance_def compliance_loop_append compliance_loop_step
    using assms by (rule compliance_loop_keeps)
  then have entry: "map_of (fst (analyze_compliance E c (earlier @ r # later) w)) (reg_value r)
          = Some (entry_of (analyze_single_regulation E c r (snd (analyze_compliance E c earlier w))))"
    by (simp add: update_conv')
  have ret: "\<exists>d w1. analyze_single_regulation E c r w0 = (Inr d, w1)"
    by (rule analyze_single_regulation_returns)
  have fail: "single_regulation_try E c r w0 = (Inl e, w1)
            \<longrightarrow> analyze_single_regulation E c r w0 = (Inr get_default_result, w1)"
    by (intro impI) (rule analyze_single_regulation_failure)
  from keys entry ret fail show ?thesis by (intro conjI)
qed

theorem analyze_compliance_isolation_witness:
  "SOX \<notin> set []
   \<and> map_of (fst (analyze_compliance (stub_env 3 [good_verdict]) payment_clause [GDPR, SOX] world_init))
        ''gdpr'' = Some get_default_result
   \<and> map_of (fst (analyze_compliance (stub_env 3 [good_verdict]) payment_clause [GDPR, SOX] world_init))
        ''sox''
       = Some (entry_of (analyze_single_regulation (stub_env 3 [good_verdict]) payment_clause SOX
                 (snd (analyze_compliance (stub_env 3 [good_verdict]) payment_clause [GDPR] world_init))))
   \<and> entry_of (analyze_single_regulation (stub_env 3 [good_verdict]) payment_clause SOX
                 (snd (analyze_compliance (stub_env 3 [good_verdict]) payment_clause [GDPR] world_init)))
       = [(''compliant'', JBool True), (''requirements_met'', JArr []),
          (''requirements_missing'', JArr []), (''risk_level'', JStr ''low''),
          (''findings'', JArr [JStr ''Payment term stated'']), (''recommendations'', JArr [])]"
proof -
  have h: "SOX \<notin> set []" by simp
  have gdpr: "map_of (fst (analyze_compliance (stub_env 3 [good_verdict]) payment_clause [GDPR, SOX] world_init))
        ''gdpr'' = Some get_default_result"
    by code_simp
  have sox: "entry_of (analyze_single_regulation (stub_env 3 [good_verdict]) payment_clause SOX
                 (snd (analyze_compliance (stub_env 3 [good_verdict]) payment_clause [GDPR] world_init)))
       = [(''compliant'', JBool True), (''requirements_met'', JArr []),
          (''requirements_missing'', JArr []), (''risk_level'', JStr ''low''),
          (''findings'', JArr [JStr ''Payment term stated'']), (''recommendations'', JArr [])]"
    by code_simp
  from analyze_compliance_isolation [OF h, of "stub_env 3 [good_verdict]" payment_clause "[GDPR]" world_init]
  have "map_of (fst (analyze_compliance (stub_env 3 [good_verdict]) payment_clause [GDPR, SOX] world_init))
        ''sox''
       = Some (entry_of (analyze_single_regulation (stub_env 3 [good_verdict]) payment_clause SOX
                 (snd (analyze_compliance (stub_env 3 [good_verdict]) payment_clause [GDPR] world_init))))"
    by simp
  with h gdpr sox show ?thesis by (intro conjI)
qed

subsection \<open>The report\<close>

lemma set_update_cases:
  "x \<in> set (AList.update k v al) \<Longrightarrow> x = (k, v) \<or> x \<in> set al"
  by (induction al) (auto split: if_splits)

lemma regulations_loop_keys:
  "fst ` set (fst (regulations_loop E c rs acc w)) = fst ` set acc \<union> reg_value ` set rs"
proof (induction rs arbitrary: acc w)
  case Nil
  then show ?case by simp
next
  case (Cons r rs)
  show ?case
    by (simp add: Cons.IH dom_update split: prod.splits)
qed

lemma clauses_loop_keys:
  "fst ` set (fst (clauses_loop E cs rs acc w)) = fst ` set acc \<union> clause_id ` set cs"
proof (induction cs arbitrary: acc w)
  case Nil
  then show ?case by simp
next
  case (Cons c cs)
  show ?case
    by (simp add: Cons.IH dom_update split: prod.splits)
qed

lemma clauses_loop_inner:
  "x \<in> set (fst (clauses_loop E cs rs acc w))
     \<Longrightarrow> x \<in> set acc \<or> fst ` set (snd x) = reg_value ` set rs"
proof (induction cs arbitrary: acc w)
  case Nil
  then show ?case by simp
next
  case (Cons c cs)
  obtain cr w1 where loop: "regulations_loop E c rs [] w = (cr, w1)"
    by (cases "regulations_loop E c rs [] w")
  from Cons.prems loop
  have "x \<in> set (fst (clauses_loop E cs rs (AList.update (clause_id c) cr acc) w1))"
    by simp
  from Cons.IH [OF this]
  have "x \<in> set (AList.update (clause_id c) cr acc) \<or> fst ` set (snd x) = reg_value ` set rs" .
  moreover have "fst ` set cr = reg_value ` set rs"
    using regulations_loop_keys [of E c rs "[]" w] loop by simp
  ultimately show ?case
  proof (elim disjE)
    assume "x \<in> set (AList.update (clause_id c) cr acc)"
    then have "x = (clause_id c, cr) \<or> x \<in> set acc" by (rule set_update_cases)
    then show ?thesis
    proof
      assume "x = (clause_id c, cr)"
      with \<open>fst ` set cr = reg_value ` set rs\<close> show ?thesis by simp
    next
      assume "x \<in> set acc"
      then show ?thesis by simp
    qed
  next
    assume "fst ` set (snd x) = reg_value ` set rs"
    then show ?thesis by simp
  qed
qed

lemma evaluate_pair_failure:
  assumes "single_regulation_try E (clause_data.truncate c) r w0 = (Inl e, w1)"
  shows "evaluate_pair E c r w0 = (failsafe_result, w1)"
proof -
  have "analyze_single_regulation E (clause_data.truncate c) r w0 = (Inr get_default_result, w1)"
    using assms by (rule analyze_single_regulation_failure)
  then have "analyze_compliance E (clause_data.truncate c) [r] w0
               = ([(reg_value r, get_default_result)], w1)"
    by (simp add: analyze_compliance_def)
  then show ?thesis
    by (simp add: evaluate_pair_def default_is_failsafe)
qed

lemma report_key_sets:
  assumes "analyze_contract E self path regs w = (Inr report, self', w')"
  shows "fst ` set (compliance_results report) = clause_id ` set (clauses report)
       \<and> (\<forall>x \<in> set (compliance_results report). fst ` set (snd x) = reg_value ` set regs)
       \<and> regulations report = regs"
proof -
  from assms obtain contract_text raw ca w1' where
    raw: "extract_clauses E (compliance_analyzer self) contract_text w = (Inr raw, ca, w1')"
    and rep: "report = \<lparr>file_name = path, regulations = regs, clauses = map to_ClauseAnalysis raw,
                 compliance_results = fst (clauses_loop E (map to_ClauseAnalysis raw) regs [] w1')\<rparr>"
    by (auto simp: analyze_contract_def Let_def split: sum.splits prod.splits)
  have keys: "fst ` set (compliance_results report) = clause_id ` set (clauses report)"
    by (simp add: rep clauses_loop_keys)
  have inner: "\<forall>x \<in> set (compliance_results report). fst ` set (snd x) = reg_value ` set regs"
  proof
    fix x assume "x \<in> set (compliance_results report)"
    then have "x \<in> set (fst (clauses_loop E (map to_ClauseAnalysis raw) regs [] w1'))"
      by (simp add: rep)
    from clauses_loop_inner [OF this] show "fst ` set (snd x) = reg_value ` set regs" by simp
  qed
  have regs: "regulations report = regs" by (simp add: rep)
  from keys inner regs show ?thesis by (intro conjI)
qed

text \<open>
  C3. In every report the keys of \<open>compliance_results\<close> are the ids of the clauses of
  the report and every inner mapping has the requested regulations as its keys
  (\<open>report_key_sets\<close>). The entry of a pair whose evaluation failed is claimed to be
  the fail-safe result. It is when the failure is absorbed inside
  \<^verbatim>\<open>ComplianceAnalyzer\<close> (\<open>evaluate_pair_failure\<close>), and it is not when the handler of
  \<^verbatim>\<open>analyze_contract\<close> absorbs it. For the regulations \<^verbatim>\<open>gdpr\<close> and \<^verbatim>\<open>sox\<close> and a model
  that answers the compliance prompt for \<^verbatim>\<open>gdpr\<close> with
  \<^verbatim>\<open>{"compliant": false, "findings": "none"}\<close> and is unreachable for \<^verbatim>\<open>sox\<close>, the
  evaluation of both pairs fails, and the report holds \<^verbatim>\<open>ComplianceResult()\<close> for the
  first pair and the fail-safe result for the second.
\<close>

theorem report_entry_of_failed_pair_is_not_failsafe:
  "fst (analyze_contract (stub_env 0 [one_clause, malformed_verdict]) ContractAnalyzer_init
          ''contract.txt'' [GDPR, SOX] world_init)
     = Inr \<lparr>file_name = ''contract.txt'', regulations = [GDPR, SOX],
            clauses = [\<lparr>clause_text = ''Payment is due within 30 days.'', primary_category = ''payment'',
                        secondary_categories = [], obligations = [], deadlines = [],
                        compliance_risks = [], clause_id = ''clause-0'', risk_score = 5\<rparr>],
            compliance_results =
              [(''clause-0'', [(''gdpr'', ComplianceResult_default), (''sox'', failsafe_result)])]\<rparr>
   \<and> ComplianceResult_default \<noteq> failsafe_result"
  by code_simp

text \<open>
  C1. The fail-safe sentinel is claimed to be the one value recorded wherever a
  failure of a pair is absorbed. It is for the failures absorbed inside
  \<^verbatim>\<open>ComplianceAnalyzer\<close> (\<open>evaluate_pair_failure\<close>). The handler of \<^verbatim>\<open>analyze_contract\<close>
  records \<^verbatim>\<open>ComplianceResult()\<close> instead, whose lists are all empty: when the model
  answers \<^verbatim>\<open>{"compliant": false, "findings": "none"}\<close>, the string is copied into the
  result, the constructor of \<^verbatim>\<open>ComplianceResult\<close> rejects it, and the report holds the
  default object for the pair, which is not the sentinel.
\<close>

theorem absorbed_validation_failure_is_not_the_sentinel:
  "fst (analyze_contract (stub_env 0 [one_clause, malformed_verdict]) ContractAnalyzer_init
          ''contract.txt'' [GDPR] world_init)
     = Inr \<lparr>file_name = ''contract.txt'', regulations = [GDPR],
            clauses = [\<lparr>clause_text = ''Payment is due within 30 days.'', primary_category = ''payment'',
                        secondary_categories = [], obligations = [], deadlines = [],
                        compliance_risks = [], clause_id = ''clause-0'', risk_score = 5\<rparr>],
            compliance_results = [(''clause-0'', [(''gdpr'', ComplianceResult_default)])]\<rparr>
   \<and> ComplianceResult_default \<noteq> failsafe_result"
  by code_simp

subsection \<open>The clause cache\<close>

lemma extract_clauses_hit:
  "map_of (clause_cache self) (get_clause_hash E txt) = Some cl
     \<Longrightarrow> extract_clauses E self txt w = (Inr cl, self, w)"
  by (simp add: extract_clauses_def)

lemma extract_clauses_stores:
  assumes "extract_clauses E self txt w = (Inr cl, self1, w1)"
  shows "map_of (clause_cache self1) (get_clause_hash E txt) = Some cl"
proof (cases "map_of (clause_cache self) (get_clause_hash E txt)")
  case (Some cached)
  with assms show ?thesis by (simp add: extract_clauses_def)
next
  case None
  with assms have "self1 = self\<lparr>clause_cache := AList.update (get_clause_hash E txt) cl (clause_cache self)\<rparr>"
    by (simp add: extract_clauses_def Let_def split: prod.splits sum.splits option.splits if_splits)
  then show ?thesis by (simp add: update_conv')
qed

lemma extract_clauses_keeps:
  assumes "map_of (clause_cache self) k = Some v"
  shows "map_of (clause_cache (fst (snd (extract_clauses E self t w)))) k = Some v"
proof (cases "map_of (clause_cache self) (get_clause_hash E t)")
  case (Some cached)
  with assms show ?thesis by (simp add: extract_clauses_def)
next
  case None
  with assms have ne: "get_clause_hash E t \<noteq> k" by auto
  have "clause_cache (fst (snd (extract_clauses E self t w))) = clause_cache self
        \<or> (\<exists>cl. clause_cache (fst (snd (extract_clauses E self t w)))
                  = AList.update (get_clause_hash E t) cl (clause_cache self))"
    using None
    by (auto simp: extract_clauses_def Let_def split: prod.splits sum.splits option.splits)
  with assms ne show ?thesis by (auto simp: update_conv')
qed

lemma extract_many_keeps:
  "map_of (clause_cache self) k = Some v
     \<Longrightarrow> map_of (clause_cache (fst (extract_many E self ts w))) k = Some v"
proof (induction ts arbitrary: self w)
  case Nil
  then show ?case by simp
next
  case (Cons t ts)
  obtain r self1 w1 where step: "extract_clauses E self t w = (r, self1, w1)"
    by (cases "extract_clauses E self t w") auto
  from extract_clauses_keeps [OF Cons.prems, of E t w] step
  have "map_of (clause_cache self1) k = Some v" by simp
  from Cons.IH [OF this] step show ?case by simp
qed

text \<open>
  C8, as stated: the cache of extracted clauses is claimed to live as long as the
  process. The cache is an attribute of the \<^verbatim>\<open>ComplianceAnalyzer\<close> object, and the
  route builds a new \<^verbatim>\<open>ContractAnalyzer\<close>, hence a new and empty cache, for every request:
  two requests in a row with the same contract both succeed and both call the model
  for the extraction (no regulation is requested, so the extraction is the only
  call of each request).
\<close>

theorem cache_is_per_request_counterexample:
  "isl (fst (analyze_contract_route (stub_env 0 [one_clause, one_clause]) contract_upload [] world_init)) = False
   \<and> backend_calls (snd (analyze_contract_route (stub_env 0 [one_clause, one_clause]) contract_upload []
                           world_init)) = 1
   \<and> isl (fst (analyze_contract_route (stub_env 0 [one_clause, one_clause]) contract_upload []
                 (snd (analyze_contract_route (stub_env 0 [one_clause, one_clause]) contract_upload []
                           world_init)))) = False
   \<and> backend_calls (snd (analyze_contract_route (stub_env 0 [one_clause, one_clause]) contract_upload []
                 (snd (analyze_contract_route (stub_env 0 [one_clause, one_clause]) contract_upload []
                           world_init)))) = 2"
  by code_simp

text \<open>
  C8, amended: after a successful call of \<open>extract_clauses\<close> on an analyzer, a call
  with the identical text on the same analyzer, directly or after any further calls
  with other texts, returns the same clause list and leaves the analyzer and the
  state as they are, so the model is not invoked; the cache key is
  \<^verbatim>\<open>str(hash(text))\<close>; the cache lasts as long as the analyzer object, which starts
  with an empty cache.
\<close>

theorem cache_hit_on_same_analyzer:
  assumes "extract_clauses E self txt w = (Inr cl, self1, w1)"
  shows "extract_clauses E (fst (extract_many E self1 others w1)) txt w2
           = (Inr cl, fst (extract_many E self1 others w1), w2)
       \<and> get_clause_hash E txt = str_int (py_hash E txt)
       \<and> clause_cache (compliance_analyzer ContractAnalyzer_init) = []"
proof -
  have "map_of (clause_cache self1) (get_clause_hash E txt) = Some cl"
    using assms by (rule extract_clauses_stores)
  then have "map_of (clause_cache (fst (extract_many E self1 others w1))) (get_clause_hash E txt) = Some cl"
    by (rule extract_many_keeps)
  then have "extract_clauses E (fst (extract_many E self1 others w1)) txt w2
           = (Inr cl, fst (extract_many E self1 others w1), w2)"
    by (rule extract_clauses_hit)
  then show ?thesis
    by (simp add: get_clause_hash_def ContractAnalyzer_init_def ComplianceAnalyzer_init_def)
qed

theorem cache_hit_on_same_analyzer_witness:
  "extract_clauses (stub_env 0 [one_clause]) ComplianceAnalyzer_init ''Payment is due within 30 days.''
      world_init
     = (Inr [\<lparr>clause_text = ''Payment is due within 30 days.'', primary_category = ''payment'',
              secondary_categories = [], obligations = [], deadlines = [], compliance_risks = [],
              clause_id = ''clause-0''\<rparr>],
        \<lparr>clause_cache =
           [(''30'', [\<lparr>clause_text = ''Payment is due within 30 days.'', primary_category = ''payment'',
                       secondary_categories = [], obligations = [], deadlines = [],
                       compliance_risks = [], clause_id = ''clause-0''\<rparr>])]\<rparr>,
        \<lparr>backend_calls = 1, attempts = 1, sleeps = [], uuids = 1\<rparr>)
   \<and> fst (extract_clauses (stub_env 0 [one_clause])
            (fst (extract_many (stub_env 0 [one_clause])
                   \<lparr>clause_cache =
                      [(''30'', [\<lparr>clause_text = ''Payment is due within 30 days.'',
                                  primary_category = ''payment'', secondary_categories = [],
                                  obligations = [], deadlines = [], compliance_risks = [],
                                  clause_id = ''clause-0''\<rparr>])]\<rparr>
                   [''Another contract.'']
                   \<lparr>backend_calls = 1, attempts = 1, sleeps = [], uuids = 1\<rparr>))
            ''Payment is due within 30 days.''
            \<lparr>backend_calls = 7, attempts = 7, sleeps = [], uuids = 1\<rparr>)
       = Inr [\<lparr>clause_text = ''Payment is due within 30 days.'', primary_category = ''payment'',
              secondary_categories = [], obligations = [], deadlines = [], compliance_risks = [],
              clause_id = ''clause-0''\<rparr>]
   \<and> snd (snd (extract_clauses (stub_env 0 [one_clause])
            (fst (extract_many (stub_env 0 [one_clause])
                   \<lparr>clause_cache =
                      [(''30'', [\<lparr>clause_text = ''Payment is due within 30 days.'',
                                  primary_category = ''payment'', secondary_categories = [],
                                  obligations = [], deadlines = [], compliance_risks = [],
                                  clause_id = ''clause-0''\<rparr>])]\<rparr>
                   [''Another contract.'']
                   \<lparr>backend_calls = 1, attempts = 1, sleeps = [], uuids = 1\<rparr>))
            ''Payment is due within 30 days.''
            \<lparr>backend_calls = 7, attempts = 7, sleeps = [], uuids = 1\<rparr>))
       = \<lparr>backend_calls = 7, attempts = 7, sleeps = [], uuids = 1\<rparr>"
proof -
  have run: "extract_clauses (stub_env 0 [one_clause]) ComplianceAnalyzer_init ''Payment is due within 30 days.''
      world_init
     = (Inr [\<lparr>clause_text = ''Payment is due within 30 days.'', primary_category = ''payment'',
              secondary_categories = [], obligations = [], deadlines = [], compliance_risks = [],
              clause_id = ''clause-0''\<rparr>],
        \<lparr>clause_cache =
           [(''30'', [\<lparr>clause_text = ''Payment is due within 30 days.'', primary_category = ''payment'',
                       secondary_categories = [], obligations = [], deadlines = [],
                       compliance_risks = [], clause_id = ''clause-0''\<rparr>])]\<rparr>,
        \<lparr>backend_calls = 1, attempts = 1, sleeps = [], uuids = 1\<rparr>)"
    by code_simp
  from cache_hit_on_same_analyzer [OF run, of "[''Another contract.'']"
         "\<lparr>backend_calls = 7, attempts = 7, sleeps = [], uuids = 1\<rparr>"]
  show ?thesis using run by simp
qed

subsection \<open>Extraction of JSON from a completion\<close>

lemma search_span_head: "search_span l r s = Some m \<Longrightarrow> \<exists>t. m = l # t"
proof -
  assume a: "search_span l r s = Some m"
  then obtain c cs where d: "dropWhile (\<lambda>x. x \<noteq> l) s = c # cs"
    by (auto simp: search_span_def split: list.splits)
  then have "c = l" using hd_dropWhile [of "\<lambda>x. x \<noteq> l" s] by auto
  with a d show ?thesis by (auto simp: search_span_def split: option.splits)
qed

lemma method3_loop_first_accepted:
  "(case method3_loop loads xs of Returned j \<Rightarrow> Some j | Failed \<Rightarrow> None | Raised e \<Rightarrow> None)
     = first_accepted loads xs"
  by (induction xs) (auto simp: try_json_def split: sum.splits)

lemma extract_is_first_accepted:
  "extract_json_from_response loads raw
     = (if raw = [] then None else first_accepted loads (candidates (clean_response raw)))"
  using method3_loop_first_accepted [of loads "findall_flat (clean_response raw)"]
  by (simp add: extract_json_from_response_def Let_def method1_def method2_def method3_def
      try_json_def candidates_def split: option.splits sum.splits attempt.splits)

lemma first_accepted_Some:
  "first_accepted loads cs = Some r \<longleftrightarrow>
     (\<exists>pre post. cs = pre @ r # post \<and> (\<forall>c \<in> set pre. loads c = Inl JSONDecodeError)
        \<and> (\<exists>v. loads r = Inr v))"
proof (induction cs)
  case Nil
  then show ?case by simp
next
  case (Cons c cs)
  show ?case
  proof (cases "loads c")
    case (Inr v)
    have "(\<exists>pre post. c # cs = pre @ r # post \<and> (\<forall>x \<in> set pre. loads x = Inl JSONDecodeError)
        \<and> (\<exists>v. loads r = Inr v)) \<longleftrightarrow> r = c"
    proof
      assume "\<exists>pre post. c # cs = pre @ r # post \<and> (\<forall>x \<in> set pre. loads x = Inl JSONDecodeError)
        \<and> (\<exists>v. loads r = Inr v)"
      then obtain pre post where e: "c # cs = pre @ r # post"
        and p: "\<forall>x \<in> set pre. loads x = Inl JSONDecodeError" by blast
      show "r = c"
      proof (cases pre)
        case Nil
        with e show ?thesis by simp
      next
        case (Cons a as)
        with e have "a = c" by simp
        with p Cons Inr show ?thesis by simp
      qed
    next
      assume "r = c"
      then have "c # cs = [] @ r # cs" by simp
      with Inr \<open>r = c\<close> show "\<exists>pre post. c # cs = pre @ r # post \<and> (\<forall>x \<in> set pre. loads x = Inl JSONDecodeError)
        \<and> (\<exists>v. loads r = Inr v)" by (metis empty_iff list.set(1))
    qed
    with Inr show ?thesis by auto
  next
    case (Inl e)
    show ?thesis
    proof (cases "e = JSONDecodeError")
      case True
      have "(\<exists>pre post. c # cs = pre @ r # post \<and> (\<forall>x \<in> set pre. loads x = Inl JSONDecodeError)
               \<and> (\<exists>v. loads r = Inr v))
            \<longleftrightarrow> (\<exists>pre post. cs = pre @ r # post \<and> (\<forall>x \<in> set pre. loads x = Inl JSONDecodeError)
               \<and> (\<exists>v. loads r = Inr v))" (is "?L \<longleftrightarrow> ?R")
      proof
        assume ?L
        then obtain pre post v where e: "c # cs = pre @ r # post"
          and p: "\<forall>x \<in> set pre. loads x = Inl JSONDecodeError" and v: "loads r = Inr v" by blast
        show ?R
        proof (cases pre)
          case Nil
          with e have "r = c" by simp
          with v Inl show ?thesis by simp
        next
          case (Cons a as)
          with e have "cs = as @ r # post" by simp
          moreover from p Cons have "\<forall>x \<in> set as. loads x = Inl JSONDecodeError" by simp
          ultimately show ?thesis using v by blast
        qed
      next
        assume ?R
        then obtain pre post v where e: "cs = pre @ r # post"
          and p: "\<forall>x \<in> set pre. loads x = Inl JSONDecodeError" and v: "loads r = Inr v" by blast
        from e have "c # cs = (c # pre) @ r # post" by simp
        moreover from p Inl True have "\<forall>x \<in> set (c # pre). loads x = Inl JSONDecodeError" by simp
        ultimately show ?L using v by blast
      qed
      with Inl True Cons.IH show ?thesis by simp
    next
      case False
      have "\<not> (\<exists>pre post. c # cs = pre @ r # post \<and> (\<forall>x \<in> set pre. loads x = Inl JSONDecodeError)
               \<and> (\<exists>v. loads r = Inr v))"
      proof
        assume "\<exists>pre post. c # cs = pre @ r # post \<and> (\<forall>x \<in> set pre. loads x = Inl JSONDecodeError)
               \<and> (\<exists>v. loads r = Inr v)"
        then obtain pre post v where e: "c # cs = pre @ r # post"
          and p: "\<forall>x \<in> set pre. loads x = Inl JSONDecodeError" and v: "loads r = Inr v" by blast
        show False
        proof (cases pre)
          case Nil
          with e have "r = c" by simp
          with v Inl show ?thesis by simp
        next
          case (Cons a as)
          with e have "a = c" by simp
          with p Cons Inl False show ?thesis by simp
        qed
      qed
      with Inl False show ?thesis by simp
    qed
  qed
qed

lemma findall_flat_head: "x \<in> set (findall_flat s) \<Longrightarrow> \<exists>t. x = CHR ''{'' # t"
proof (induction s rule: findall_flat.induct)
  case 1
  then show ?case by simp
next
  case (2 c cs)
  show ?case
  proof (cases "c = CHR ''{''")
    case False
    with 2 show ?thesis by simp
  next
    case True
    show ?thesis
    proof (cases "dropWhile (\<lambda>x. \<not> is_brace x) cs")
      case Nil
      with True "2.prems" show ?thesis by simp
    next
      case (Cons d ds)
      show ?thesis
      proof (cases "d = CHR ''}''")
        case d: True
        with True Cons "2.prems"
        have "x = c # takeWhile (\<lambda>x. \<not> is_brace x) cs @ [d] \<or> x \<in> set (findall_flat ds)"
          by simp
        then show ?thesis
          using "2.IH"(1) [OF True Cons d] True by auto
      next
        case d: False
        with True Cons "2.prems" have "x \<in> set (findall_flat (d # ds))" by simp
        then show ?thesis using "2.IH"(2) [OF True Cons d] by simp
      qed
    qed
  qed
qed


lemma first_accepted_None:
  "first_accepted loads cs = None \<longleftrightarrow>
     (\<forall>c \<in> set cs. loads c = Inl JSONDecodeError)
     \<or> (\<exists>pre c post e. cs = pre @ c # post \<and> (\<forall>x \<in> set pre. loads x = Inl JSONDecodeError)
           \<and> loads c = Inl e \<and> e \<noteq> JSONDecodeError)"
proof (induction cs)
  case Nil
  then show ?case by simp
next
  case (Cons c cs)
  let ?Q = "\<lambda>l. \<exists>pre c post e. l = pre @ c # post \<and> (\<forall>x \<in> set pre. loads x = Inl JSONDecodeError)
           \<and> loads c = Inl e \<and> e \<noteq> JSONDecodeError"
  show ?case
  proof (cases "loads c")
    case (Inr v)
    have "\<not> ?Q (c # cs)"
    proof
      assume "?Q (c # cs)"
      then obtain pre d post e where e: "c # cs = pre @ d # post"
        and p: "\<forall>x \<in> set pre. loads x = Inl JSONDecodeError" and d: "loads d = Inl e" by blast
      show False
      proof (cases pre)
        case Nil
        with e have "d = c" by simp
        with d Inr show ?thesis by simp
      next
        case (Cons a as)
        with e have "a = c" by simp
        with p Cons Inr show ?thesis by simp
      qed
    qed
    with Inr show ?thesis by auto
  next
    case (Inl e)
    show ?thesis
    proof (cases "e = JSONDecodeError")
      case True
      have "?Q (c # cs) \<longleftrightarrow> ?Q cs"
      proof
        assume "?Q (c # cs)"
        then obtain pre d post e' where e: "c # cs = pre @ d # post"
          and p: "\<forall>x \<in> set pre. loads x = Inl JSONDecodeError"
          and d: "loads d = Inl e'" "e' \<noteq> JSONDecodeError" by blast
        show "?Q cs"
        proof (cases pre)
          case Nil
          with e have "d = c" by simp
          with d Inl True show ?thesis by simp
        next
          case (Cons a as)
          with e have "cs = as @ d # post" by simp
          moreover from p Cons have "\<forall>x \<in> set as. loads x = Inl JSONDecodeError" by simp
          ultimately show ?thesis using d by blast
        qed
      next
        assume "?Q cs"
        then obtain pre d post e' where e: "cs = pre @ d # post"
          and p: "\<forall>x \<in> set pre. loads x = Inl JSONDecodeError"
          and d: "loads d = Inl e'" "e' \<noteq> JSONDecodeError" by blast
        from e have "c # cs = (c # pre) @ d # post" by simp
        moreover from p Inl True have "\<forall>x \<in> set (c # pre). loads x = Inl JSONDecodeError" by simp
        ultimately show "?Q (c # cs)" using d by blast
      qed
      with Inl True Cons.IH show ?thesis by simp
    next
      case False
      have "c # cs = [] @ c # cs" by simp
      with Inl False have "?Q (c # cs)" by (metis empty_iff list.set(1))
      with Inl False show ?thesis by simp
    qed
  qed
qed

lemma candidates_head:
  assumes "r \<in> set (candidates c)"
  shows "startswith r ''{'' \<or> startswith r ''[''"
proof -
  from assms consider
      (a) "search_span (CHR ''{'') (CHR ''}'') c = Some r"
    | (b) "search_span (CHR ''['') (CHR '']'') c = Some r"
    | (c) "r \<in> set (findall_flat c)"
    by (auto simp: candidates_def split: option.splits)
  then show ?thesis
  proof cases
    case a
    then show ?thesis using search_span_head [of "CHR ''{''" "CHR ''}''" c r]
      by (auto simp: startswith_def)
  next
    case b
    then show ?thesis using search_span_head [of "CHR ''[''" "CHR '']''" c r]
      by (auto simp: startswith_def)
  next
    case c
    then show ?thesis using findall_flat_head [of r c]
      by (auto simp: startswith_def)
  qed
qed

lemma clean_json_response_iff:
  "clean_json_response raw = Some r \<longleftrightarrow>
     raw \<noteq> []
     \<and> (search_span (CHR ''{'') (CHR ''}'') (printable_text raw) = Some r \<and> contains r clauses_key
        \<or> (\<forall>m. search_span (CHR ''{'') (CHR ''}'') (printable_text raw) = Some m
                 \<longrightarrow> \<not> contains m clauses_key)
          \<and> (\<exists>a. search_span (CHR ''['') (CHR '']'') (printable_text raw) = Some a
                   \<and> r = ''{'' @ clauses_key @ '': '' @ a @ ''}''))"
  by (auto simp: clean_json_response_def printable_text_def Let_def split: option.splits)

lemma clean_json_response_shape:
  assumes "clean_json_response raw = Some r"
  shows "startswith r ''{'' \<and> contains r clauses_key"
proof -
  from assms consider
      (span) "search_span (CHR ''{'') (CHR ''}'') (printable_text raw) = Some r" "contains r clauses_key"
    | (wrap) m where "r = ''{'' @ clauses_key @ '': '' @ m @ ''}''"
    unfolding clean_json_response_iff by blast
  then show ?thesis
  proof cases
    case span
    then show ?thesis using search_span_head [of "CHR ''{''" "CHR ''}''" "printable_text raw" r]
      by (auto simp: startswith_def)
  next
    case wrap
    then show ?thesis by (simp add: startswith_def clauses_key_def)
  qed
qed

lemma extract_json_outer_handler:
  assumes "raw \<noteq> []" and "search_span (CHR ''{'') (CHR ''}'') (clean_response raw) = Some m"
    and "loads m = Inl e" and "e \<noteq> JSONDecodeError"
  shows "extract_json_from_response loads raw = None"
  using assms
  by (simp add: extract_json_from_response_def Let_def method1_def try_json_def)

lemma extract_json_outer_handler_example:
  \<open>extract_json_from_response (ref_loads 1) ''{"a": {"b": 1}} {"c": 2}'' = None
   \<and> ref_loads 1 ''{"a": {"b": 1}} {"c": 2}''
       = Inl (RecursionError
                ''maximum recursion depth exceeded while decoding a JSON object from a unicode string'')
   \<and> ref_loads 1 ''{"c": 2}'' = Inr (JObj [(''c'', JNum ''2'')])
   \<and> extract_json_from_response (ref_loads 2) ''{"a": {"b": 1}} {"c": 2}'' = Some ''{"b": 1}''\<close>
  by code_simp

lemma parse_json_outer_handler_example:
  \<open>parse_json_with_fallbacks (ref_loads 1) ''{"clauses": [{"text": "a"}]}'' = None
   \<and> parse_json_with_fallbacks (ref_loads 3) ''{"clauses": [{"text": "a"}]}''
       = Some (JObj [(''clauses'', JArr [JObj [(''text'', JStr ''a'')]])])
   \<and> parse_json_with_fallbacks (ref_loads 3) ''{"clauses": [{"text": "a"},]}''
       = Some (JObj [(''clauses'', JArr [JObj [(''text'', JStr ''a'')]])])\<close>
  by code_simp


text \<open>
  C4, as stated: both extractors are claimed to be one logic that returns the first
  strategy result that parses as valid JSON. \<^verbatim>\<open>_clean_json_response\<close> never parses: on
  the completion \<^verbatim>\<open>{"clauses"}\<close> it returns that text, on which the decoder raises
  \<^verbatim>\<open>JSONDecodeError\<close>, while \<^verbatim>\<open>_extract_json_from_response\<close> returns \<^verbatim>\<open>None\<close> on the same
  completion.
\<close>

theorem clean_json_response_unparsed_counterexample:
  \<open>clean_json_response ''{"clauses"}'' = Some ''{"clauses"}''
   \<and> ref_loads 1000 ''{"clauses"}'' = Inl JSONDecodeError
   \<and> extract_json_from_response (ref_loads 1000) ''{"clauses"}'' = None\<close>
  by code_simp

text \<open>
  C4, amended: the two functions are different logics. For every decoder and every
  completion, \<^verbatim>\<open>_extract_json_from_response\<close> returns \<^verbatim>\<open>None\<close> for the empty completion
  and otherwise walks through the candidates of the cleaned completion in order (the
  greedy brace span, the greedy bracket span, the flat objects): it returns the
  first candidate that the decoder accepts, all candidates before it having raised
  \<^verbatim>\<open>JSONDecodeError\<close>; what it returns starts with a brace or a bracket; it returns
  \<^verbatim>\<open>None\<close> exactly when the completion is empty, when the decoder raises
  \<^verbatim>\<open>JSONDecodeError\<close> on every candidate, or when it raises another exception on a
  candidate before it has accepted one. \<^verbatim>\<open>_clean_json_response\<close> calls no decoder: for
  a completion that is not empty it returns the greedy brace span of the printable
  text when there is one and it contains \<^verbatim>\<open>"clauses"\<close>, otherwise the greedy bracket
  span wrapped as \<^verbatim>\<open>{"clauses": ...}\<close> when there is one, and \<^verbatim>\<open>None\<close> in every other
  case; what it returns starts with a brace and contains \<^verbatim>\<open>"clauses"\<close>.
\<close>

theorem extraction_strategies:
  "extract_json_from_response loads raw
     = (if raw = [] then None else first_accepted loads (candidates (clean_response raw)))
   \<and> (extract_json_from_response loads raw = Some r \<longleftrightarrow>
        raw \<noteq> []
        \<and> (\<exists>pre post. candidates (clean_response raw) = pre @ r # post
              \<and> (\<forall>c \<in> set pre. loads c = Inl JSONDecodeError)
              \<and> (\<exists>v. loads r = Inr v)))
   \<and> (extract_json_from_response loads raw = Some r \<longrightarrow> startswith r ''{'' \<or> startswith r ''['')
   \<and> (extract_json_from_response loads raw = None \<longleftrightarrow>
        raw = []
        \<or> (\<forall>c \<in> set (candidates (clean_response raw)). loads c = Inl JSONDecodeError)
        \<or> (\<exists>pre c post e. candidates (clean_response raw) = pre @ c # post
              \<and> (\<forall>x \<in> set pre. loads x = Inl JSONDecodeError)
              \<and> loads c = Inl e \<and> e \<noteq> JSONDecodeError))
   \<and> (clean_json_response raw = Some r \<longleftrightarrow>
        raw \<noteq> []
        \<and> (search_span (CHR ''{'') (CHR ''}'') (printable_text raw) = Some r \<and> contains r clauses_key
           \<or> (\<forall>m. search_span (CHR ''{'') (CHR ''}'') (printable_text raw) = Some m
                    \<longrightarrow> \<not> contains m clauses_key)
             \<and> (\<exists>a. search_span (CHR ''['') (CHR '']'') (printable_text raw) = Some a
                      \<and> r = ''{'' @ clauses_key @ '': '' @ a @ ''}'')))
   \<and> (clean_json_response raw = Some r \<longrightarrow> startswith r ''{'' \<and> contains r clauses_key)"
proof -
  have eq: "extract_json_from_response loads raw
     = (if raw = [] then None else first_accepted loads (candidates (clean_response raw)))"
    by (rule extract_is_first_accepted)
  have some: "extract_json_from_response loads raw = Some r \<longleftrightarrow>
        raw \<noteq> []
        \<and> (\<exists>pre post. candidates (clean_response raw) = pre @ r # post
              \<and> (\<forall>c \<in> set pre. loads c = Inl JSONDecodeError)
              \<and> (\<exists>v. loads r = Inr v))"
    unfolding eq using first_accepted_Some [of loads "candidates (clean_response raw)" r]
    by (cases "raw = []") simp_all
  have head: "extract_json_from_response loads raw = Some r
                \<longrightarrow> startswith r ''{'' \<or> startswith r ''[''"
  proof
    assume "extract_json_from_response loads raw = Some r"
    with some obtain pre post where "candidates (clean_response raw) = pre @ r # post" by blast
    then have "r \<in> set (candidates (clean_response raw))" by simp
    then show "startswith r ''{'' \<or> startswith r ''[''" by (rule candidates_head)
  qed
  have none: "extract_json_from_response loads raw = None \<longleftrightarrow>
        raw = []
        \<or> (\<forall>c \<in> set (candidates (clean_response raw)). loads c = Inl JSONDecodeError)
        \<or> (\<exists>pre c post e. candidates (clean_response raw) = pre @ c # post
              \<and> (\<forall>x \<in> set pre. loads x = Inl JSONDecodeError)
              \<and> loads c = Inl e \<and> e \<noteq> JSONDecodeError)"
    unfolding eq using first_accepted_None [of loads "candidates (clean_response raw)"]
    by (cases "raw = []") simp_all
  have cleaner: "clean_json_response raw = Some r \<longleftrightarrow>
        raw \<noteq> []
        \<and> (search_span (CHR ''{'') (CHR ''}'') (printable_text raw) = Some r \<and> contains r clauses_key
           \<or> (\<forall>m. search_span (CHR ''{'') (CHR ''}'') (printable_text raw) = Some m
                    \<longrightarrow> \<not> contains m clauses_key)
             \<and> (\<exists>a. search_span (CHR ''['') (CHR '']'') (printable_text raw) = Some a
                      \<and> r = ''{'' @ clauses_key @ '': '' @ a @ ''}''))"
    by (rule clean_json_response_iff)
  have shape: "clean_json_response raw = Some r \<longrightarrow> startswith r ''{'' \<and> contains r clauses_key"
    by (intro impI) (rule clean_json_response_shape)
  from eq some head none cleaner shape show ?thesis by (intro conjI)
qed

theorem extraction_strategies_witness:
  \<open>extract_json_from_response (ref_loads 1000) ''Result: {bad} then {"compliant": true} {''
     = Some ''{"compliant": true}''
   \<and> candidates (clean_response ''Result: {bad} then {"compliant": true} {'')
       = [''{bad} then {"compliant": true}'', ''{bad}''] @ ''{"compliant": true}'' # []
   \<and> ref_loads 1000 ''{bad} then {"compliant": true}'' = Inl JSONDecodeError
   \<and> ref_loads 1000 ''{bad}'' = Inl JSONDecodeError
   \<and> ref_loads 1000 ''{"compliant": true}'' = Inr (JObj [(''compliant'', JBool True)])
   \<and> (startswith ''{"compliant": true}'' ''{'' \<or> startswith ''{"compliant": true}'' ''['')
   \<and> extract_json_from_response (ref_loads 1000) ''no json here'' = None
   \<and> clean_json_response ''list: [{"text": "a"}]'' = Some ''{"clauses": [{"text": "a"}]}''
   \<and> startswith ''{"clauses": [{"text": "a"}]}'' ''{''
   \<and> contains ''{"clauses": [{"text": "a"}]}'' clauses_key\<close>
proof -
  have c: \<open>candidates (clean_response ''Result: {bad} then {"compliant": true} {'')
       = [''{bad} then {"compliant": true}'', ''{bad}''] @ ''{"compliant": true}'' # []\<close>
    by code_simp
  have p1: \<open>ref_loads 1000 ''{bad} then {"compliant": true}'' = Inl JSONDecodeError\<close>
    by code_simp
  have p2: \<open>ref_loads 1000 ''{bad}'' = Inl JSONDecodeError\<close>
    by code_simp
  from p1 p2
  have p: \<open>\<forall>c \<in> set [''{bad} then {"compliant": true}'', ''{bad}'']. ref_loads 1000 c = Inl JSONDecodeError\<close>
    by simp
  have v: \<open>ref_loads 1000 ''{"compliant": true}'' = Inr (JObj [(''compliant'', JBool True)])\<close>
    by code_simp
  have w: \<open>clean_json_response ''list: [{"text": "a"}]'' = Some ''{"clauses": [{"text": "a"}]}''\<close>
    by code_simp
  note t1 = extraction_strategies [of "ref_loads 1000" \<open>''Result: {bad} then {"compliant": true} {''\<close>
              \<open>''{"compliant": true}''\<close>]
  note t2 = extraction_strategies [of "ref_loads 1000" \<open>''no json here''\<close> \<open>''x''\<close>]
  note t3 = extraction_strategies [of "ref_loads 1000" \<open>''list: [{"text": "a"}]''\<close>
              \<open>''{"clauses": [{"text": "a"}]}''\<close>]
  have n0: \<open>''Result: {bad} then {"compliant": true} {'' \<noteq> []\<close> by simp
  from t1 [THEN conjunct2, THEN conjunct1] n0 c p v
  have e: \<open>extract_json_from_response (ref_loads 1000) ''Result: {bad} then {"compliant": true} {''
     = Some ''{"compliant": true}''\<close>
    by blast
  from t1 [THEN conjunct2, THEN conjunct2, THEN conjunct1] e
  have h: \<open>startswith ''{"compliant": true}'' ''{'' \<or> startswith ''{"compliant": true}'' ''[''\<close>
    by (rule mp)
  have k: \<open>\<forall>c \<in> set (candidates (clean_response ''no json here'')). ref_loads 1000 c = Inl JSONDecodeError\<close>
    by code_simp
  from t2 [THEN conjunct2, THEN conjunct2, THEN conjunct2, THEN conjunct1] k
  have n: \<open>extract_json_from_response (ref_loads 1000) ''no json here'' = None\<close>
    by blast
  from t3 [THEN conjunct2, THEN conjunct2, THEN conjunct2, THEN conjunct2, THEN conjunct2] w
  have s: \<open>startswith ''{"clauses": [{"text": "a"}]}'' ''{''
           \<and> contains ''{"clauses": [{"text": "a"}]}'' clauses_key\<close>
    by (rule mp)
  from s have s1: \<open>startswith ''{"clauses": [{"text": "a"}]}'' ''{''\<close> ..
  from s have s2: \<open>contains ''{"clauses": [{"text": "a"}]}'' clauses_key\<close> ..
  from e c p1 p2 v h n w s1 s2 show ?thesis by (intro conjI)
qed

subsection \<open>The overall compliance of a report\<close>






















end
